theory Spec2Isabelle
  imports Complex_Main "HOL-Library.Multiset"
begin

section \<open>County population data preparation (prepare_data.py)\<close>

text \<open>
  The script is a straight-line pipeline: two HTTP fetches, a cleaning step on the
  statistics table, the derived columns, a dictionary join against the boundary
  features and two file writes. The logarithm and the percentile rank are modelled
  as exact reals. The colour ramp, whose results go through \<^verbatim>\<open>int\<close>, is evaluated in
  binary64 arithmetic, its argument being the float nearest to the exact rank.
\<close>

subsection \<open>Numeric helpers of the language\<close>

text \<open>\<^verbatim>\<open>int(x)\<close> on a float truncates towards zero.\<close>

definition py_int :: "real \<Rightarrow> int" where
  "py_int x = (if 0 \<le> x then \<lfloor>x\<rfloor> else \<lceil>x\<rceil>)"

text \<open>
  \<^verbatim>\<open>round(x, n)\<close> rounds to \<open>n\<close> decimals, a tie going to the even neighbour.
\<close>

definition round_half_even :: "real \<Rightarrow> int" where
  "round_half_even x =
     (let f = \<lfloor>x\<rfloor>; d = x - of_int f
      in if d < 1 / 2 then f
         else if 1 / 2 < d then f + 1
         else if even f then f else f + 1)"

definition py_round :: "real \<Rightarrow> nat \<Rightarrow> real" where
  "py_round x n = of_int (round_half_even (x * 10 ^ n)) / 10 ^ n"

subsection \<open>Binary64 arithmetic\<close>

text \<open>
  A Python float is an IEEE-754 binary64 number. Around a real \<open>x\<close> with binary
  exponent \<open>e\<close> (never below -1022, where the subnormal numbers begin) the floats are
  the multiples of \<open>2 ^ (e - 52)\<close>, and \<open>round_double x\<close> is the nearest of them, a tie
  going to the even multiple. Overflow is left out: no value of the script comes near
  \<open>2 ^ 1024\<close>.
\<close>

definition binade :: "real \<Rightarrow> int" where
  "binade x = max \<lfloor>log 2 \<bar>x\<bar>\<rfloor> (- 1022)"

definition ulp :: "real \<Rightarrow> real" where
  "ulp x = 2 powr (of_int (binade x) - 52)"

definition round_double :: "real \<Rightarrow> real" where
  "round_double x = (if x = 0 then 0 else of_int (round_half_even (x / ulp x)) * ulp x)"

text \<open>The four operations on floats: the exact result, rounded once.\<close>

definition fadd :: "real \<Rightarrow> real \<Rightarrow> real" where
  "fadd x y = round_double (x + y)"

definition fsub :: "real \<Rightarrow> real \<Rightarrow> real" where
  "fsub x y = round_double (x - y)"

definition fmul :: "real \<Rightarrow> real \<Rightarrow> real" where
  "fmul x y = round_double (x * y)"

definition fdiv :: "real \<Rightarrow> real \<Rightarrow> real" where
  "fdiv x y = round_double (x / y)"

subsection \<open>The colour ramp\<close>

text \<open>
  \<^verbatim>\<open>population_color(t)\<close>: four bands of width 0.25, each with a local parameter
  \<open>s\<close>, every channel passed through \<^verbatim>\<open>int\<close>, alpha the literal 200. The argument
  \<open>q\<close> is the exact rank; the function receives the float \<open>t\<close> nearest to it. The
  literals 0.25, 0.5, 0.75 and the integer constants are floats themselves.
\<close>

definition population_color :: "real \<Rightarrow> int list" where
  "population_color q =
     (let t = round_double q in
      if t < 0.25 then
        (let s = fdiv t 0.25
         in [30, py_int (fadd 60 (fmul 140 s)), py_int (fadd 150 (fmul 105 s)), 200])
      else if t < 0.5 then
        (let s = fdiv (fsub t 0.25) 0.25
         in [py_int (fadd 30 (fmul 100 s)), py_int (fadd 200 (fmul 55 s)),
             py_int (fsub 255 (fmul 100 s)), 200])
      else if t < 0.75 then
        (let s = fdiv (fsub t 0.5) 0.25
         in [py_int (fadd 130 (fmul 125 s)), py_int (fsub 255 (fmul 55 s)),
             py_int (fsub 155 (fmul 105 s)), 200])
      else
        (let s = fdiv (fsub t 0.75) 0.25
         in [255, py_int (fsub 200 (fmul 130 s)), py_int (fsub 50 (fmul 50 s)), 200]))"

text \<open>
  The linear expressions of the four bands as the script evaluates them, before
  \<^verbatim>\<open>int\<close> is applied, as a triple (red, green, blue), and the two ways of turning
  them into integers that are compared below: to the nearest integer, and downwards.
\<close>

definition band_formula :: "real \<Rightarrow> real \<times> real \<times> real" where
  "band_formula q =
     (let t = round_double q in
      if t < 0.25 then
        (let s = fdiv t 0.25 in (30, fadd 60 (fmul 140 s), fadd 150 (fmul 105 s)))
      else if t < 0.5 then
        (let s = fdiv (fsub t 0.25) 0.25
         in (fadd 30 (fmul 100 s), fadd 200 (fmul 55 s), fsub 255 (fmul 100 s)))
      else if t < 0.75 then
        (let s = fdiv (fsub t 0.5) 0.25
         in (fadd 130 (fmul 125 s), fsub 255 (fmul 55 s), fsub 155 (fmul 105 s)))
      else
        (let s = fdiv (fsub t 0.75) 0.25
         in (255, fsub 200 (fmul 130 s), fsub 50 (fmul 50 s))))"

definition nearest_color :: "real \<Rightarrow> int list" where
  "nearest_color t = (case band_formula t of (r, g, b) \<Rightarrow> [round r, round g, round b, 200])"

definition floor_color :: "real \<Rightarrow> int list" where
  "floor_color t = (case band_formula t of (r, g, b) \<Rightarrow> [\<lfloor>r\<rfloor>, \<lfloor>g\<rfloor>, \<lfloor>b\<rfloor>, 200])"

subsection \<open>Upstream responses\<close>

text \<open>
  What \<^verbatim>\<open>requests.get(url, timeout=60)\<close> can give: it raises (no connection, timeout),
  or it returns a response with a status code and a body. The body is kept as the
  decoded document, \<open>None\<close> when \<^verbatim>\<open>resp.json()\<close> cannot decode it into the shape the
  script goes on to index.
\<close>

datatype 'a http_result = NetworkError | Response nat "'a option"

datatype error = RequestException | HTTPError nat | JSONDecodeError | TypeError

text \<open>\<^verbatim>\<open>raise_for_status()\<close> raises for the client and server error codes.\<close>

definition raise_for_status :: "nat \<Rightarrow> error option" where
  "raise_for_status status = (if 400 \<le> status \<and> status < 600 then Some (HTTPError status) else None)"

text \<open>The three lines \<^verbatim>\<open>get\<close>, \<^verbatim>\<open>raise_for_status\<close>, \<^verbatim>\<open>json\<close> of each download.\<close>

definition fetch :: "'a http_result \<Rightarrow> error + 'a" where
  "fetch r =
     (case r of
        NetworkError \<Rightarrow> Inl RequestException
      | Response status body \<Rightarrow>
          (case raise_for_status status of
             Some e \<Rightarrow> Inl e
           | None \<Rightarrow> (case body of None \<Rightarrow> Inl JSONDecodeError | Some doc \<Rightarrow> Inr doc)))"

text \<open>JSON values that occur in a feature's property bag.\<close>

datatype jvalue = JStr string | JInt int | JReal real | JInts "int list"

text \<open>
  A boundary feature: its optional \<^verbatim>\<open>"id"\<close> member, its \<^verbatim>\<open>"properties"\<close> dictionary
  (in insertion order) and its geometry, which the script never inspects.
\<close>

record 'g feature =
  feature_id :: "string option"
  properties :: "(string \<times> jvalue) list"
  geometry :: 'g

text \<open>
  The statistics table after \<^verbatim>\<open>pd.DataFrame(rows, columns=header)\<close>: the query asks
  for exactly these four string columns.
\<close>

record census_row =
  NAME :: string
  B01003_001E :: string
  state :: string
  county :: string

text \<open>The table once every derived column has been added.\<close>

record county_row = census_row +
  FIPS :: string
  population :: real
  log_pop :: real
  population_formatted :: string
  quantile :: real
  fill_color :: "int list"

subsection \<open>Cleaning\<close>

text \<open>
  \<^verbatim>\<open>pd.to_numeric(..., errors="coerce")\<close> belongs to the data-frame library; it is a
  parameter here, \<open>None\<close> standing for the NaN it gives a field that is not a number.
  A NaN fails the test \<^verbatim>\<open>population > 0\<close>, so the filter drops it together with
  every value that is not strictly positive.
\<close>

definition df_population :: "(string \<Rightarrow> real option) \<Rightarrow> census_row list \<Rightarrow> (census_row \<times> real) list" where
  "df_population to_numeric rows =
     List.map_filter
       (\<lambda>r. case to_numeric (B01003_001E r) of
              None \<Rightarrow> None
            | Some v \<Rightarrow> if 0 < v then Some (r, v) else None)
       rows"

text \<open>
  The reading of a plain decimal literal (optional minus sign, digits, optional
  fraction), which is the form the statistics source sends; used for concrete runs.
\<close>

definition digit_value :: "char \<Rightarrow> nat option" where
  "digit_value =
     map_of [(CHR ''0'', 0), (CHR ''1'', 1), (CHR ''2'', 2), (CHR ''3'', 3), (CHR ''4'', 4),
             (CHR ''5'', 5), (CHR ''6'', 6), (CHR ''7'', 7), (CHR ''8'', 8), (CHR ''9'', 9)]"

fun digits_value :: "string \<Rightarrow> nat \<Rightarrow> nat option" where
  "digits_value [] acc = Some acc"
| "digits_value (c # cs) acc =
     (case digit_value c of None \<Rightarrow> None | Some d \<Rightarrow> digits_value cs (10 * acc + d))"

definition unsigned_decimal :: "string \<Rightarrow> real option" where
  "unsigned_decimal s =
     (let whole = takeWhile (\<lambda>c. c \<noteq> CHR ''.'') s;
          rest = dropWhile (\<lambda>c. c \<noteq> CHR ''.'') s
      in if whole = [] then None
         else case digits_value whole 0 of
                None \<Rightarrow> None
              | Some n \<Rightarrow>
                  (case rest of
                     [] \<Rightarrow> Some (real n)
                   | _ # decimals \<Rightarrow>
                       if decimals = [] then None
                       else case digits_value decimals 0 of
                              None \<Rightarrow> None
                            | Some m \<Rightarrow> Some (real n + real m / 10 ^ length decimals)))"

definition decimal_literal :: "string \<Rightarrow> real option" where
  "decimal_literal s =
     (if s \<noteq> [] \<and> hd s = CHR ''-'' then map_option uminus (unsigned_decimal (tl s))
      else unsigned_decimal s)"

subsection \<open>Derived columns\<close>

text \<open>\<^verbatim>\<open>f"{int(x):,}"\<close>: the decimal digits grouped in threes from the right.\<close>

definition digit_char :: "nat \<Rightarrow> char" where
  "digit_char d = ''0123456789'' ! d"

fun decimal_digits :: "nat \<Rightarrow> string" where
  "decimal_digits n =
     (if n < 10 then [digit_char n] else decimal_digits (n div 10) @ [digit_char (n mod 10)])"

fun group_thousands :: "string \<Rightarrow> string" where
  "group_thousands (a # b # c # d # rest) = a # b # c # CHR '','' # group_thousands (d # rest)"
| "group_thousands ds = ds"

definition format_thousands :: "int \<Rightarrow> string" where
  "format_thousands i =
     (if i < 0 then CHR ''-'' # rev (group_thousands (rev (decimal_digits (nat (- i)))))
      else rev (group_thousands (rev (decimal_digits (nat i)))))"

text \<open>
  \<^verbatim>\<open>Series.rank(pct=True)\<close> with its default method: the values equal to \<open>x\<close>
  occupy the positions after the smaller ones, each of them gets the mean of those
  positions, and the result is divided by the number of values.
\<close>

definition average_rank :: "real list \<Rightarrow> real \<Rightarrow> real" where
  "average_rank xs x =
     (let below = length (filter (\<lambda>y. y < x) xs);
          ties = length (filter (\<lambda>y. y = x) xs)
      in real (sum_list [below + 1 ..< below + ties + 1]) / real ties)"

definition rank_pct :: "real list \<Rightarrow> real \<Rightarrow> real" where
  "rank_pct xs x = average_rank xs x / real (length xs)"

definition derive :: "(census_row \<times> real) list \<Rightarrow> county_row list" where
  "derive df =
     map (\<lambda>(r, p).
            \<lparr>NAME = NAME r, B01003_001E = B01003_001E r, state = state r, county = county r,
             FIPS = state r @ county r,
             population = p,
             log_pop = log 10 (p + 1),
             population_formatted = format_thousands (py_int p),
             quantile = rank_pct (map snd df) p,
             fill_color = population_color (rank_pct (map snd df) p)\<rparr>)
         df"

subsection \<open>Join and persistence\<close>

text \<open>\<^verbatim>\<open>d[k] = v\<close> on a dictionary kept in insertion order.\<close>

fun dict_set :: "string \<Rightarrow> jvalue \<Rightarrow> (string \<times> jvalue) list \<Rightarrow> (string \<times> jvalue) list" where
  "dict_set k v [] = [(k, v)]"
| "dict_set k v ((k', v') # d) = (if k = k' then (k, v) # d else (k', v') # dict_set k v d)"

text \<open>The dictionary stored under a county's identifier.\<close>

definition lookup_entry :: "county_row \<Rightarrow> (string \<times> jvalue) list" where
  "lookup_entry row =
     [(''population'', JInt (py_int (population row))),
      (''population_formatted'', JStr (population_formatted row)),
      (''log_pop'', JReal (py_round (log_pop row) 4)),
      (''quantile'', JReal (py_round (quantile row) 4)),
      (''fill_color'', JInts (fill_color row)),
      (''county_name'', JStr (NAME row))]"

definition value_lookup :: "county_row list \<Rightarrow> (string \<rightharpoonup> (string \<times> jvalue) list)" where
  "value_lookup df = foldl (\<lambda>m row. m(FIPS row \<mapsto> lookup_entry row)) Map.empty df"

text \<open>
  \<^verbatim>\<open>feature.get("id") or feature["properties"].get("GEO_ID", "")[-5:]\<close>: a missing
  or empty id falls through to the last five characters of \<^verbatim>\<open>GEO_ID\<close>, which must be
  a string to be sliced.
\<close>

definition last5 :: "string \<Rightarrow> string" where
  "last5 s = drop (length s - 5) s"

definition geo_id_fips :: "'g feature \<Rightarrow> error + string" where
  "geo_id_fips f =
     (case map_of (properties f) ''GEO_ID'' of
        None \<Rightarrow> Inr (last5 [])
      | Some (JStr s) \<Rightarrow> Inr (last5 s)
      | Some _ \<Rightarrow> Inl TypeError)"

definition feature_fips :: "'g feature \<Rightarrow> error + string" where
  "feature_fips f =
     (case feature_id f of
        None \<Rightarrow> geo_id_fips f
      | Some i \<Rightarrow> if i \<noteq> [] then Inr i else geo_id_fips f)"

definition attach :: "(string \<times> jvalue) list \<Rightarrow> string \<Rightarrow> 'g feature \<Rightarrow> 'g feature" where
  "attach info fips f =
     f\<lparr>properties :=
         dict_set ''fips'' (JStr fips)
           (foldl (\<lambda>d (k, v). dict_set k v d) (properties f) info)\<rparr>"

fun matched_features ::
  "(string \<rightharpoonup> (string \<times> jvalue) list) \<Rightarrow> 'g feature list \<Rightarrow> error + 'g feature list" where
  "matched_features vl [] = Inr []"
| "matched_features vl (f # fs) =
     (case feature_fips f of
        Inl e \<Rightarrow> Inl e
      | Inr fips \<Rightarrow>
          (case matched_features vl fs of
             Inl e \<Rightarrow> Inl e
           | Inr rest \<Rightarrow>
               (case vl fips of None \<Rightarrow> Inr rest | Some info \<Rightarrow> Inr (attach info fips f # rest))))"

text \<open>The six columns of the tabular export, in the order of \<^verbatim>\<open>df_out\<close>.\<close>

type_synonym csv_row = "string \<times> string \<times> real \<times> string \<times> real \<times> real"

definition df_out :: "county_row list \<Rightarrow> csv_row list" where
  "df_out df =
     map (\<lambda>row. (FIPS row, NAME row, population row, population_formatted row, log_pop row, quantile row)) df"

text \<open>The two files under \<^verbatim>\<open>data/\<close>; \<open>None\<close> is a file that does not exist.\<close>

record 'g files =
  geojson_file :: "'g feature list option"
  csv_file :: "csv_row list option"

text \<open>
  The whole script. An exception ends it at once, leaving the files as they were; the
  first component of the result is the exception, if any.
\<close>

definition prepare_data ::
  "(string \<Rightarrow> real option) \<Rightarrow> 'g feature list http_result \<Rightarrow> census_row list http_result \<Rightarrow>
   'g files \<Rightarrow> error option \<times> 'g files" where
  "prepare_data to_numeric counties_resp census_resp fs =
     (case fetch counties_resp of
        Inl e \<Rightarrow> (Some e, fs)
      | Inr features \<Rightarrow>
          (case fetch census_resp of
             Inl e \<Rightarrow> (Some e, fs)
           | Inr rows \<Rightarrow>
               (let df = derive (df_population to_numeric rows);
                    vl = value_lookup df
                in case matched_features vl features of
                     Inl e \<Rightarrow> (Some e, fs)
                   | Inr matched \<Rightarrow>
                       (let fs1 = fs\<lparr>geojson_file := Some matched\<rparr>;
                            fs2 = fs1\<lparr>csv_file := Some (df_out df)\<rparr>
                        in (None, fs2)))))"

subsection \<open>Predicates and concrete inputs used in the statements\<close>

text \<open>A boundary feature whose identifier is a key of the lookup.\<close>

definition fips_matches :: "(string \<rightharpoonup> (string \<times> jvalue) list) \<Rightarrow> 'g feature \<Rightarrow> bool" where
  "fips_matches vl f = (case feature_fips f of Inl e \<Rightarrow> False | Inr k \<Rightarrow> vl k \<noteq> None)"


text \<open>A table of three counties, two of them with equal populations.\<close>

definition tied_table :: "(census_row \<times> real) list" where
  "tied_table =
     [(\<lparr>NAME = ''A'', B01003_001E = ''5'', state = ''01'', county = ''001''\<rparr>, 5),
      (\<lparr>NAME = ''B'', B01003_001E = ''5'', state = ''01'', county = ''003''\<rparr>, 5),
      (\<lparr>NAME = ''C'', B01003_001E = ''7'', state = ''01'', county = ''005''\<rparr>, 7)]"

text \<open>The two-county run: a statistics response, a boundary collection, an empty directory.\<close>

definition scenario_rows :: "census_row list" where
  "scenario_rows =
     [\<lparr>NAME = ''Los Angeles County, California'', B01003_001E = ''10000000'',
       state = ''06'', county = ''037''\<rparr>,
      \<lparr>NAME = ''San Diego County, California'', B01003_001E = ''3000000'',
       state = ''06'', county = ''073''\<rparr>]"

definition scenario_features :: "nat feature list" where
  "scenario_features =
     [\<lparr>feature_id = Some ''06037'', properties = [(''GEO_ID'', JStr ''0500000US06037'')], geometry = 1\<rparr>,
      \<lparr>feature_id = Some ''06073'', properties = [(''GEO_ID'', JStr ''0500000US06073'')], geometry = 2\<rparr>]"

definition no_files :: "nat files" where
  "no_files = \<lparr>geojson_file = None, csv_file = None\<rparr>"

text \<open>
  A run with three usable rows, a row holding the sentinel, a zero row and a row that
  is not a number; five polygons, one identified through \<^verbatim>\<open>GEO_ID\<close> only, one for the
  sentinel county and one without any statistics row.
\<close>

definition mixed_rows :: "census_row list" where
  "mixed_rows =
     [\<lparr>NAME = ''Los Angeles County, California'', B01003_001E = ''10000000'',
       state = ''06'', county = ''037''\<rparr>,
      \<lparr>NAME = ''San Diego County, California'', B01003_001E = ''3000000'',
       state = ''06'', county = ''073''\<rparr>,
      \<lparr>NAME = ''Alpine County, California'', B01003_001E = ''1200'',
       state = ''06'', county = ''003''\<rparr>,
      \<lparr>NAME = ''San Francisco County, California'', B01003_001E = ''-666666666'',
       state = ''06'', county = ''075''\<rparr>,
      \<lparr>NAME = ''San Joaquin County, California'', B01003_001E = ''0'',
       state = ''06'', county = ''077''\<rparr>,
      \<lparr>NAME = ''San Luis Obispo County, California'', B01003_001E = ''N/A'',
       state = ''06'', county = ''079''\<rparr>]"

definition mixed_features :: "nat feature list" where
  "mixed_features =
     [\<lparr>feature_id = Some ''06037'', properties = [(''GEO_ID'', JStr ''0500000US06037'')], geometry = 1\<rparr>,
      \<lparr>feature_id = Some ''06073'', properties = [(''GEO_ID'', JStr ''0500000US06073'')], geometry = 2\<rparr>,
      \<lparr>feature_id = None, properties = [(''GEO_ID'', JStr ''0500000US06003'')], geometry = 3\<rparr>,
      \<lparr>feature_id = Some ''06075'', properties = [], geometry = 4\<rparr>,
      \<lparr>feature_id = Some ''06999'', properties = [], geometry = 5\<rparr>]"

section \<open>Auxiliary facts\<close>

subsection \<open>Ranks\<close>

lemma sum_list_ranks: "2 * sum_list [b + 1 ..< b + t + 1] = t * (2 * b + t + 1)"
  by (induction t) (simp_all add: algebra_simps)

lemma ties_ge1: "x \<in> set xs \<Longrightarrow> 1 \<le> real (length (filter (\<lambda>y. y = x) xs))"
proof -
  assume "x \<in> set xs"
  then have "filter (\<lambda>y. y = x) xs \<noteq> []" by (simp add: filter_empty_conv)
  then have "0 < length (filter (\<lambda>y. y = x) xs)" by simp
  then show ?thesis by linarith
qed

lemma half_sum: "0 < (t::real) \<Longrightarrow> 2 * S = t * (2 * b + t + 1) \<Longrightarrow> S / t = b + (t + 1) / 2"
  by (simp add: field_simps)

lemma avg_upper: "b + t \<le> n \<Longrightarrow> 1 \<le> t \<Longrightarrow> b + (t + 1) / 2 \<le> (n::real)"
  by argo

lemma avg_strict: "b + t \<le> c \<Longrightarrow> 1 \<le> t \<Longrightarrow> 1 \<le> u \<Longrightarrow> b + (t + 1) / 2 < c + ((u::real) + 1) / 2"
  by argo

lemma average_rank_closed:
  assumes "x \<in> set xs"
  shows "average_rank xs x =
    real (length (filter (\<lambda>y. y < x) xs)) + (real (length (filter (\<lambda>y. y = x) xs)) + 1) / 2"
proof -
  let ?b = "length (filter (\<lambda>y. y < x) xs)"
  let ?t = "length (filter (\<lambda>y. y = x) xs)"
  have t: "0 < real ?t" using ties_ge1 [OF assms] by linarith
  have "2 * real (sum_list [?b + 1 ..< ?b + ?t + 1]) = real ?t * (2 * real ?b + real ?t + 1)"
    using sum_list_ranks [of ?b ?t] by (metis (no_types, lifting) of_nat_1 of_nat_add of_nat_mult of_nat_numeral)
  then have "real (sum_list [?b + 1 ..< ?b + ?t + 1]) / real ?t = real ?b + (real ?t + 1) / 2"
    using t by (rule half_sum [rotated])
  then show ?thesis by (simp add: average_rank_def Let_def)
qed

lemma below_ties_le: "length (filter (\<lambda>y. y < x) xs) + length (filter (\<lambda>y. y = (x::real)) xs) \<le> length xs"
  by (induction xs) auto

lemma below_mono: "x < y \<Longrightarrow>
  length (filter (\<lambda>z. z < x) xs) + length (filter (\<lambda>z. z = (x::real)) xs) \<le> length (filter (\<lambda>z. z < y) xs)"
  by (induction xs) auto

lemma rank_pct_pos: assumes "x \<in> set xs" shows "0 < rank_pct xs x"
proof -
  have "0 < length xs" using assms by (cases xs) auto
  moreover have "0 < average_rank xs x" using ties_ge1[OF assms] by (simp add: average_rank_closed [OF assms] add_nonneg_pos)
  ultimately show ?thesis by (simp add: rank_pct_def)
qed

lemma rank_pct_le_1: assumes "x \<in> set xs" shows "rank_pct xs x \<le> 1"
proof -
  have n: "0 < length xs" using assms by (cases xs) auto
  have "real (length (filter (\<lambda>y. y < x) xs)) + real (length (filter (\<lambda>y. y = x) xs)) \<le> real (length xs)"
    using below_ties_le [of x xs] by (metis of_nat_add of_nat_le_iff)
  moreover have "1 \<le> real (length (filter (\<lambda>y. y = x) xs))" by (rule ties_ge1 [OF assms])
  ultimately have "average_rank xs x \<le> real (length xs)"
    unfolding average_rank_closed [OF assms] by (rule avg_upper)
  then show ?thesis using n by (simp add: rank_pct_def)
qed

lemma rank_pct_strict: assumes "x \<in> set xs" "y \<in> set xs" "x < y" shows "rank_pct xs x < rank_pct xs y"
proof -
  have n: "0 < length xs" using assms by (cases xs) auto
  have "real (length (filter (\<lambda>z. z < x) xs)) + real (length (filter (\<lambda>z. z = x) xs)) \<le> real (length (filter (\<lambda>z. z < y) xs))"
    using below_mono [OF assms(3), of xs] by (metis of_nat_add of_nat_le_iff)
  moreover have "1 \<le> real (length (filter (\<lambda>z. z = x) xs))" by (rule ties_ge1 [OF assms(1)])
  moreover have "1 \<le> real (length (filter (\<lambda>z. z = y) xs))" by (rule ties_ge1 [OF assms(2)])
  ultimately have "average_rank xs x < average_rank xs y"
    unfolding average_rank_closed [OF assms(1)] average_rank_closed [OF assms(2)] by (rule avg_strict)
  then show ?thesis using n by (simp add: rank_pct_def divide_strict_right_mono)
qed

lemma rank_pct_mset: assumes "mset xs = mset ys" shows "rank_pct xs x = rank_pct ys x"
proof -
  have f: "\<And>P. length (filter P xs) = length (filter P ys)"
    using assms by (metis mset_filter size_mset)
  have "length xs = length ys" using assms by (metis size_mset)
  then show ?thesis by (simp add: rank_pct_def average_rank_def f)
qed

subsection \<open>Cleaning, derived columns and the join\<close>

lemma df_population_iff:
  "(r, v) \<in> set (df_population to_numeric rows) \<longleftrightarrow>
     r \<in> set rows \<and> to_numeric (B01003_001E r) = Some v \<and> 0 < v"
  unfolding df_population_def
  by (induction rows) (auto split: option.splits if_splits)

lemma df_population_map_fst:
  "map fst (df_population to_numeric rows) =
     filter (\<lambda>r. \<exists>v. to_numeric (B01003_001E r) = Some v \<and> 0 < v) rows"
  by (induction rows) (auto simp: df_population_def split: option.splits)

lemma derive_mem:
  assumes "row \<in> set (derive df)"
  shows "\<exists>r p. (r, p) \<in> set df \<and> NAME row = NAME r \<and> B01003_001E row = B01003_001E r
     \<and> state row = state r \<and> county row = county r
     \<and> FIPS row = state r @ county r \<and> population row = p \<and> log_pop row = log 10 (p + 1)
     \<and> population_formatted row = format_thousands (py_int p)
     \<and> quantile row = rank_pct (map snd df) p
     \<and> fill_color row = population_color (rank_pct (map snd df) p)"
  using assms by (auto simp: derive_def)

lemma foldl_lookup_Some:
  "foldl (\<lambda>m row. m(FIPS row \<mapsto> lookup_entry row)) m0 df k = Some e \<Longrightarrow>
     (\<exists>row \<in> set df. FIPS row = k \<and> e = lookup_entry row) \<or> m0 k = Some e"
  by (induction df arbitrary: m0) (fastforce split: if_splits)+

lemma value_lookup_Some:
  "value_lookup df k = Some e \<Longrightarrow> \<exists>row \<in> set df. FIPS row = k \<and> e = lookup_entry row"
  unfolding value_lookup_def using foldl_lookup_Some [of Map.empty df k e] by simp

lemma foldl_lookup_dom:
  "dom (foldl (\<lambda>m row. m(FIPS row \<mapsto> lookup_entry row)) m0 df) = dom m0 \<union> FIPS ` set df"
  by (induction df arbitrary: m0) auto

lemma value_lookup_dom: "dom (value_lookup df) = FIPS ` set df"
  by (simp add: value_lookup_def foldl_lookup_dom)

lemma map_of_dict_set: "map_of (dict_set k v d) = (map_of d)(k \<mapsto> v)"
  by (induction d) (auto simp: fun_eq_iff)

lemma attach_geometry: "geometry (attach info fips f) = geometry f"
  by (simp add: attach_def)

lemma attach_entry:
  "map_of (properties (attach (lookup_entry row) fips f)) ''fips'' = Some (JStr fips)
   \<and> map_of (properties (attach (lookup_entry row) fips f)) ''population'' = Some (JInt (py_int (population row)))
   \<and> map_of (properties (attach (lookup_entry row) fips f)) ''population_formatted'' = Some (JStr (population_formatted row))
   \<and> map_of (properties (attach (lookup_entry row) fips f)) ''log_pop'' = Some (JReal (py_round (log_pop row) 4))
   \<and> map_of (properties (attach (lookup_entry row) fips f)) ''quantile'' = Some (JReal (py_round (quantile row) 4))
   \<and> map_of (properties (attach (lookup_entry row) fips f)) ''fill_color'' = Some (JInts (fill_color row))
   \<and> map_of (properties (attach (lookup_entry row) fips f)) ''county_name'' = Some (JStr (NAME row))"
  by (simp add: attach_def lookup_entry_def map_of_dict_set)

lemma matched_features_geometry:
  "matched_features vl fs = Inr out \<Longrightarrow> map geometry out = map geometry (filter (fips_matches vl) fs)"
  by (induction fs arbitrary: out)
     (auto simp: fips_matches_def attach_geometry split: sum.splits option.splits)

lemma matched_features_mem:
  "matched_features vl fs = Inr out \<Longrightarrow> g \<in> set out \<Longrightarrow>
     \<exists>f \<in> set fs. \<exists>k info. feature_fips f = Inr k \<and> vl k = Some info \<and> g = attach info k f"
  by (induction fs arbitrary: out) (auto split: sum.splits option.splits)

lemma scenario_population:
  "df_population decimal_literal scenario_rows = [(scenario_rows ! 0, 10000000), (scenario_rows ! 1, 3000000)]"
  by (simp add: df_population_def scenario_rows_def decimal_literal_def unsigned_decimal_def digit_value_def)

subsection \<open>The whole run\<close>

lemma fetch_ok: "fetch (Response 200 (Some doc)) = Inr doc"
  by (simp add: fetch_def raise_for_status_def)

lemma prepare_data_ok:
  assumes "fetch counties_resp = Inr features" and "fetch census_resp = Inr rows"
      and "matched_features (value_lookup (derive (df_population to_numeric rows))) features = Inr out"
  shows "prepare_data to_numeric counties_resp census_resp fs
         = (None, fs\<lparr>geojson_file := Some out,
                      csv_file := Some (df_out (derive (df_population to_numeric rows)))\<rparr>)"
  using assms by (simp add: prepare_data_def Let_def)

lemma prepare_data_None:
  assumes "prepare_data to_numeric counties_resp census_resp fs = (None, fs')"
  shows "\<exists>features rows out. fetch counties_resp = Inr features \<and> fetch census_resp = Inr rows
     \<and> matched_features (value_lookup (derive (df_population to_numeric rows))) features = Inr out
     \<and> fs' = fs\<lparr>geojson_file := Some out,
                 csv_file := Some (df_out (derive (df_population to_numeric rows)))\<rparr>"
  using assms by (auto simp: prepare_data_def Let_def split: sum.splits)

lemma matched_entry:
  assumes "matched_features (value_lookup df) features = Inr out" and "g \<in> set out"
  shows "\<exists>row \<in> set df. \<exists>f \<in> set features.
           feature_fips f = Inr (FIPS row) \<and> g = attach (lookup_entry row) (FIPS row) f"
proof -
  obtain f k info where f: "f \<in> set features" "feature_fips f = Inr k"
      "value_lookup df k = Some info" "g = attach info k f"
    using matched_features_mem [OF assms] by blast
  obtain row where "row \<in> set df" "FIPS row = k" "info = lookup_entry row"
    using value_lookup_Some [OF f(3)] by blast
  then show ?thesis using f by blast
qed

lemma fips_matches_iff:
  "fips_matches (value_lookup df) f \<longleftrightarrow> (\<exists>row \<in> set df. feature_fips f = Inr (FIPS row))"
proof (cases "feature_fips f")
  case (Inl e)
  then show ?thesis by (simp add: fips_matches_def)
next
  case (Inr k)
  have "value_lookup df k \<noteq> None \<longleftrightarrow> k \<in> FIPS ` set df"
    using value_lookup_dom [of df] by (auto simp: dom_def)
  then show ?thesis using Inr by (auto simp: fips_matches_def)
qed

lemma derive_row:
  assumes "row \<in> set (derive (df_population to_numeric rows))"
  shows "\<exists>r v. r \<in> set rows \<and> to_numeric (B01003_001E r) = Some v \<and> 0 < v
           \<and> (r, v) \<in> set (df_population to_numeric rows)
           \<and> FIPS row = state r @ county r \<and> NAME row = NAME r \<and> population row = v
           \<and> log_pop row = log 10 (v + 1)
           \<and> quantile row = rank_pct (map snd (df_population to_numeric rows)) v"
proof -
  obtain r p where rp: "(r, p) \<in> set (df_population to_numeric rows)" "NAME row = NAME r"
      "FIPS row = state r @ county r" "population row = p" "log_pop row = log 10 (p + 1)"
      "quantile row = rank_pct (map snd (df_population to_numeric rows)) p"
    using derive_mem [OF assms] by blast
  then show ?thesis using df_population_iff [of r p to_numeric rows] by blast
qed

lemma derive_row_conv:
  assumes "(r, v) \<in> set (df_population to_numeric rows)"
  shows "\<exists>row \<in> set (derive (df_population to_numeric rows)). FIPS row = state r @ county r"
  using assms by (force simp: derive_def)

lemma py_int_pos: "1 \<le> v \<Longrightarrow> 0 < py_int v"
  by (simp add: py_int_def)


subsection \<open>The concrete runs\<close>

lemma mixed_literals:
  "decimal_literal ''-666666666'' = Some (- 666666666) \<and> decimal_literal ''0'' = Some 0
   \<and> decimal_literal ''N/A'' = None"
  by (simp add: decimal_literal_def unsigned_decimal_def digit_value_def)

lemma mixed_population:
  "df_population decimal_literal mixed_rows
   = [(mixed_rows ! 0, 10000000), (mixed_rows ! 1, 3000000), (mixed_rows ! 2, 1200)]"
  by (simp add: df_population_def mixed_rows_def decimal_literal_def unsigned_decimal_def digit_value_def)

lemma mixed_table:
  "\<exists>la sd al. derive (df_population decimal_literal mixed_rows) = [la, sd, al]
     \<and> FIPS la = ''06037'' \<and> population la = 10000000 \<and> quantile la = 1
     \<and> NAME la = ''Los Angeles County, California''
     \<and> FIPS sd = ''06073'' \<and> population sd = 3000000 \<and> quantile sd = 2 / 3
     \<and> NAME sd = ''San Diego County, California''
     \<and> FIPS al = ''06003'' \<and> population al = 1200 \<and> quantile al = 1 / 3
     \<and> NAME al = ''Alpine County, California''"
  unfolding mixed_population
  by (simp add: derive_def mixed_rows_def rank_pct_def average_rank_def)

lemma mixed_run:
  "\<exists>la sd al. derive (df_population decimal_literal mixed_rows) = [la, sd, al]
     \<and> FIPS la = ''06037'' \<and> population la = 10000000 \<and> quantile la = 1
     \<and> NAME la = ''Los Angeles County, California''
     \<and> FIPS sd = ''06073'' \<and> population sd = 3000000 \<and> quantile sd = 2 / 3
     \<and> NAME sd = ''San Diego County, California''
     \<and> FIPS al = ''06003'' \<and> population al = 1200 \<and> quantile al = 1 / 3
     \<and> NAME al = ''Alpine County, California''
     \<and> prepare_data decimal_literal (Response 200 (Some mixed_features))
          (Response 200 (Some mixed_rows)) no_files
        = (None, no_files\<lparr>geojson_file :=
                   Some [attach (lookup_entry la) ''06037'' (mixed_features ! 0),
                         attach (lookup_entry sd) ''06073'' (mixed_features ! 1),
                         attach (lookup_entry al) ''06003'' (mixed_features ! 2)],
                 csv_file := Some (df_out [la, sd, al])\<rparr>)"
proof -
  obtain la sd al where t: "derive (df_population decimal_literal mixed_rows) = [la, sd, al]"
     "FIPS la = ''06037''" "population la = 10000000" "quantile la = 1"
     "NAME la = ''Los Angeles County, California''"
     "FIPS sd = ''06073''" "population sd = 3000000" "quantile sd = 2 / 3"
     "NAME sd = ''San Diego County, California''"
     "FIPS al = ''06003''" "population al = 1200" "quantile al = 1 / 3"
     "NAME al = ''Alpine County, California''"
    using mixed_table by blast
  have "matched_features (value_lookup [la, sd, al]) mixed_features
        = Inr [attach (lookup_entry la) ''06037'' (mixed_features ! 0),
               attach (lookup_entry sd) ''06073'' (mixed_features ! 1),
               attach (lookup_entry al) ''06003'' (mixed_features ! 2)]"
    by (simp add: t value_lookup_def mixed_features_def feature_fips_def geo_id_fips_def last5_def)
  then have "prepare_data decimal_literal (Response 200 (Some mixed_features))
          (Response 200 (Some mixed_rows)) no_files
        = (None, no_files\<lparr>geojson_file :=
                   Some [attach (lookup_entry la) ''06037'' (mixed_features ! 0),
                         attach (lookup_entry sd) ''06073'' (mixed_features ! 1),
                         attach (lookup_entry al) ''06003'' (mixed_features ! 2)],
                 csv_file := Some (df_out [la, sd, al])\<rparr>)"
    using prepare_data_ok [OF fetch_ok fetch_ok, of decimal_literal mixed_rows mixed_features _ no_files]
    by (simp add: t(1))
  then show ?thesis using t by blast
qed

subsection \<open>Rounding to the nearest float\<close>

lemma round_half_even_ge_floor: "\<lfloor>y\<rfloor> \<le> round_half_even y"
  by (simp add: round_half_even_def Let_def)

lemma round_half_even_le_floor1: "round_half_even y \<le> \<lfloor>y\<rfloor> + 1"
  by (simp add: round_half_even_def Let_def)

lemma round_half_even_lower:
  assumes "of_int k \<le> y"
  shows "k \<le> round_half_even y"
proof -
  have "k \<le> \<lfloor>y\<rfloor>" using assms by (simp add: le_floor_iff)
  then show ?thesis using round_half_even_ge_floor [of y] by linarith
qed

lemma round_half_even_upper:
  assumes "y \<le> of_int k"
  shows "round_half_even y \<le> k"
proof (cases "\<lfloor>y\<rfloor> < k")
  case True
  then show ?thesis using round_half_even_le_floor1 [of y] by linarith
next
  case False
  then have "\<lfloor>y\<rfloor> = k" using assms by (simp add: floor_le_iff le_floor_iff order_antisym not_less)
  moreover have "y = of_int k" using assms calculation by (metis of_int_floor_le order_antisym)
  ultimately show ?thesis by (simp add: round_half_even_def Let_def)
qed

lemma round_half_even_of_int: "round_half_even (of_int z) = z"
  by (simp add: round_half_even_def Let_def)

lemma round_half_even_mono:
  assumes "a \<le> b"
  shows "round_half_even a \<le> round_half_even b"
proof (cases "\<lfloor>a\<rfloor> < \<lfloor>b\<rfloor>")
  case True
  then show ?thesis
    using round_half_even_le_floor1 [of a] round_half_even_ge_floor [of b] by linarith
next
  case False
  then have "\<lfloor>a\<rfloor> = \<lfloor>b\<rfloor>" using floor_mono [OF assms] by linarith
  then show ?thesis using assms by (auto simp: round_half_even_def Let_def)
qed

lemma ulp_pos: "0 < ulp x"
  by (simp add: ulp_def)

lemma binade_mono:
  assumes "0 < x" and "x \<le> y"
  shows "binade x \<le> binade y"
proof -
  have "log 2 x \<le> log 2 y" using assms by simp
  then have "\<lfloor>log 2 x\<rfloor> \<le> \<lfloor>log 2 y\<rfloor>" by (rule floor_mono)
  then show ?thesis using assms by (simp add: binade_def max.coboundedI1)
qed

lemma below_next_binade:
  assumes "0 < x"
  shows "x < 2 powr (of_int (binade x) + 1)"
proof -
  have "x < 2 powr (of_int \<lfloor>log 2 x\<rfloor> + 1)"
    using assms floor_log_eq_powr_iff [of x 2 "\<lfloor>log 2 x\<rfloor>"] by simp
  also have "\<dots> \<le> 2 powr (of_int (binade x) + 1)"
    using assms by (intro powr_mono) (simp_all add: binade_def)
  finally show ?thesis .
qed

lemma above_binade:
  assumes "0 < x" and "- 1022 < binade x"
  shows "2 powr (of_int (binade x)) \<le> x"
proof -
  have "binade x = \<lfloor>log 2 x\<rfloor>" using assms by (simp add: binade_def max_def split: if_splits)
  then show ?thesis
    using assms floor_log_eq_powr_iff [of x 2 "\<lfloor>log 2 x\<rfloor>"] by simp
qed

lemma round_double_le_next:
  assumes "0 < x"
  shows "round_double x \<le> 2 powr (of_int (binade x) + 1)"
proof -
  have "x / ulp x \<le> 2 powr (of_int (binade x) + 1) / ulp x"
    using below_next_binade [OF assms] ulp_pos [of x] by (simp add: divide_right_mono)
  also have "\<dots> = 2 powr 53"
    by (simp add: ulp_def powr_diff [symmetric])
  also have "\<dots> = of_int (2 ^ 53)"
    by simp
  finally have "round_half_even (x / ulp x) \<le> 2 ^ 53"
    by (rule round_half_even_upper)
  then have "of_int (round_half_even (x / ulp x)) * ulp x \<le> of_int (2 ^ 53) * ulp x"
    using ulp_pos [of x] by (intro mult_right_mono) simp_all
  also have "\<dots> = 2 powr 53 * ulp x" by simp
  also have "\<dots> = 2 powr (53 + (of_int (binade x) - 52))"
    unfolding ulp_def by (simp only: powr_add)
  also have "\<dots> = 2 powr (of_int (binade x) + 1)"
    by (simp add: algebra_simps)
  finally show ?thesis using assms by (simp add: round_double_def)
qed

lemma round_double_ge_binade:
  assumes "0 < x" and "- 1022 < binade x"
  shows "2 powr (of_int (binade x)) \<le> round_double x"
proof -
  have "2 powr (of_int (binade x)) / ulp x \<le> x / ulp x"
    using above_binade [OF assms] ulp_pos [of x] by (simp add: divide_right_mono)
  moreover have "2 powr (of_int (binade x)) / ulp x = 2 powr 52"
    by (simp add: ulp_def powr_diff [symmetric])
  moreover have "2 powr 52 = (of_int (2 ^ 52) :: real)"
    by simp
  ultimately have "of_int (2 ^ 52) \<le> x / ulp x" by simp
  then have "2 ^ 52 \<le> round_half_even (x / ulp x)"
    by (rule round_half_even_lower)
  then have "of_int (2 ^ 52) * ulp x \<le> of_int (round_half_even (x / ulp x)) * ulp x"
    using ulp_pos [of x] by (intro mult_right_mono) simp_all
  moreover have "of_int (2 ^ 52) * ulp x = 2 powr (of_int (binade x))"
  proof -
    have "of_int (2 ^ 52) * ulp x = 2 powr 52 * ulp x" by simp
    also have "\<dots> = 2 powr (52 + (of_int (binade x) - 52))"
      unfolding ulp_def by (simp only: powr_add)
    also have "\<dots> = 2 powr (of_int (binade x))" by (simp add: algebra_simps)
    finally show ?thesis .
  qed
  ultimately show ?thesis using assms by (simp add: round_double_def)
qed

lemma round_double_nonneg:
  assumes "0 \<le> x"
  shows "0 \<le> round_double x"
proof (cases "x = 0")
  case True
  then show ?thesis by (simp add: round_double_def)
next
  case False
  then have "of_int 0 \<le> x / ulp x" using assms ulp_pos [of x] by simp
  then have "0 \<le> round_half_even (x / ulp x)" by (rule round_half_even_lower)
  then show ?thesis using False ulp_pos [of x] by (simp add: round_double_def)
qed

lemma round_double_mono:
  assumes "0 \<le> x" and "x \<le> y"
  shows "round_double x \<le> round_double y"
proof (cases "x = 0")
  case True
  then show ?thesis using round_double_nonneg [of y] assms by (simp add: round_double_def)
next
  case False
  then have x: "0 < x" and y: "0 < y" using assms by linarith+
  show ?thesis
  proof (cases "binade x = binade y")
    case True
    then have u: "ulp x = ulp y" by (simp add: ulp_def)
    have "x / ulp y \<le> y / ulp y" using assms ulp_pos [of y] by (simp add: divide_right_mono)
    then have "round_half_even (x / ulp y) \<le> round_half_even (y / ulp y)"
      by (rule round_half_even_mono)
    then have "of_int (round_half_even (x / ulp y)) * ulp y \<le> of_int (round_half_even (y / ulp y)) * ulp y"
      using ulp_pos [of y] by (intro mult_right_mono) simp_all
    then show ?thesis using x y u by (simp add: round_double_def)
  next
    case False
    then have lt: "binade x < binade y" using binade_mono [OF x assms(2)] by linarith
    moreover have "- 1022 \<le> binade x" by (simp add: binade_def)
    ultimately have "- 1022 < binade y" by linarith
    then have "2 powr (of_int (binade y)) \<le> round_double y"
      by (rule round_double_ge_binade [OF y])
    moreover have "round_double x \<le> 2 powr (of_int (binade x) + 1)"
      by (rule round_double_le_next [OF x])
    moreover have "2 powr (of_int (binade x) + 1) \<le> (2::real) powr (of_int (binade y))"
      using lt by (intro powr_mono) simp_all
    ultimately show ?thesis by linarith
  qed
qed

lemma round_double_0: "round_double 0 = 0"
  by (simp add: round_double_def)

lemma ulp_dyadic:
  assumes "0 < m" and "m < 2 ^ 53" and "j \<le> 1074"
  shows "\<exists>n. ulp (of_int m / 2 ^ j) = 1 / (2 ^ j * 2 ^ n)"
proof -
  let ?x = "real_of_int m / 2 ^ j"
  have x: "0 < ?x" using assms by simp
  have le: "binade ?x \<le> 52 - int j"
  proof (cases "- 1022 < binade ?x")
    case False
    moreover have "- 1022 \<le> binade ?x" by (simp add: binade_def)
    ultimately show ?thesis using assms(3) by linarith
  next
    case True
    have "2 powr (of_int (binade ?x)) \<le> ?x" by (rule above_binade [OF x True])
    also have "?x < 2 ^ 53 / 2 ^ j"
    proof -
      have "real_of_int m < real_of_int (2 ^ 53)" using assms(2) by (simp only: of_int_less_iff)
      then show ?thesis by (simp add: divide_strict_right_mono)
    qed
    also have "\<dots> = 2 powr 53 / 2 powr (real j)"
      by (simp add: powr_realpow)
    also have "\<dots> = 2 powr (53 - real j)"
      by (simp only: powr_diff)
    finally have "real_of_int (binade ?x) < 53 - real j" by simp
    then have "binade ?x < 53 - int j" by linarith
    then show ?thesis by linarith
  qed
  define n where "n = nat (52 - int j - binade ?x)"
  have n: "int n = 52 - int j - binade ?x" using le by (simp add: n_def)
  have "real_of_int (binade ?x) - 52 = - real (j + n)"
    using n by simp
  then have "ulp ?x = 2 powr (- real (j + n))" by (simp only: ulp_def)
  also have "\<dots> = 1 / 2 powr (real (j + n))" by (simp only: powr_minus_divide)
  also have "\<dots> = 1 / 2 ^ (j + n)" using powr_realpow [of 2 "j + n"] by (simp only: zero_less_numeral)
  also have "\<dots> = 1 / (2 ^ j * 2 ^ n)" by (simp only: power_add)
  finally show ?thesis by blast
qed

lemma round_double_dyadic:
  assumes "0 < m" and "m < 2 ^ 53" and "j \<le> 1074"
  shows "round_double (of_int m / 2 ^ j) = of_int m / 2 ^ j"
proof -
  let ?x = "real_of_int m / 2 ^ j"
  obtain n where u: "ulp ?x = 1 / (2 ^ j * 2 ^ n)"
    using ulp_dyadic [OF assms] by blast
  have "?x / ulp ?x = of_int (m * 2 ^ n)"
    unfolding u by simp
  then have "round_half_even (?x / ulp ?x) = m * 2 ^ n"
    by (simp only: round_half_even_of_int)
  moreover have "?x \<noteq> 0" using assms by simp
  ultimately have "round_double ?x = of_int (m * 2 ^ n) * ulp ?x"
    by (simp only: round_double_def if_False)
  also have "\<dots> = ?x" unfolding u by simp
  finally show ?thesis .
qed

lemma round_double_int:
  assumes "0 \<le> m" and "m < 2 ^ 53"
  shows "round_double (of_int m) = of_int m"
proof (cases "m = 0")
  case True
  then show ?thesis by (simp add: round_double_0)
next
  case False
  then show ?thesis using round_double_dyadic [of m 0] assms by simp
qed

lemma round_double_range:
  assumes "0 \<le> a" and "a \<le> x" and "x \<le> b" and "round_double a = a" and "round_double b = b"
  shows "a \<le> round_double x \<and> round_double x \<le> b"
  using round_double_mono [OF assms(1,2)] round_double_mono [of x b] assms by simp

lemma binade_eq:
  assumes "2 powr (of_int k) \<le> x" and "x < 2 powr (of_int k + 1)" and "- 1022 \<le> k"
  shows "binade x = k"
proof -
  have "0 < x" using assms(1) powr_gt_zero [of 2 "of_int k"] by linarith
  then have "\<lfloor>log 2 x\<rfloor> = k"
    using assms floor_log_eq_powr_iff [of x 2 k] by simp
  then show ?thesis using assms(3) \<open>0 < x\<close> by (simp add: binade_def)
qed

lemma round_double_large:
  assumes "2 ^ k \<le> x" and "x < 2 * 2 ^ k" and "k \<le> 52"
  shows "round_double x = of_int (round_half_even (x * 2 ^ (52 - k))) / 2 ^ (52 - k)"
proof -
  have x: "0 < x" using assms(1) zero_less_power [of "2::real" k] by linarith
  have "2 powr (of_int (int k)) \<le> x" using assms(1) by (simp add: powr_realpow)
  moreover have "x < 2 powr (of_int (int k) + 1)"
    using assms(2) by (simp add: powr_add powr_realpow)
  ultimately have b: "binade x = int k" by (rule binade_eq) simp
  have "real_of_int (int k) - 52 = - real (52 - k)" using assms(3) by simp
  then have "ulp x = 2 powr (- real (52 - k))" by (simp only: ulp_def b)
  also have "\<dots> = 1 / 2 powr (real (52 - k))" by (simp only: powr_minus_divide)
  also have "\<dots> = 1 / 2 ^ (52 - k)" using powr_realpow [of 2 "52 - k"] by (simp only: zero_less_numeral)
  finally have u: "ulp x = 1 / 2 ^ (52 - k)" .
  show ?thesis using x by (simp add: round_double_def u)
qed

lemma round_double_small:
  assumes "1 / 2 ^ k \<le> x" and "x < 2 / 2 ^ k" and "k \<le> 1022"
  shows "round_double x = of_int (round_half_even (x * 2 ^ (52 + k))) / 2 ^ (52 + k)"
proof -
  have "0 < 1 / (2::real) ^ k" by simp
  then have x: "0 < x" using assms(1) by linarith
  have "2 powr (of_int (- int k)) \<le> x"
    using assms(1) by (simp add: powr_minus_divide powr_realpow)
  moreover have "x < 2 powr (of_int (- int k) + 1)"
  proof -
    have "2 powr (of_int (- int k) + 1) = 2 powr (- real k) * 2 powr 1"
      by (simp only: powr_add of_int_minus of_int_of_nat_eq)
    also have "\<dots> = 2 / 2 ^ k"
      by (simp add: powr_minus_divide powr_realpow)
    finally show ?thesis using assms(2) by simp
  qed
  ultimately have b: "binade x = - int k" by (rule binade_eq) (use assms(3) in simp)
  have "real_of_int (- int k) - 52 = - real (52 + k)" by simp
  then have "ulp x = 2 powr (- real (52 + k))" by (simp only: ulp_def b)
  also have "\<dots> = 1 / 2 powr (real (52 + k))" by (simp only: powr_minus_divide)
  also have "\<dots> = 1 / 2 ^ (52 + k)" using powr_realpow [of 2 "52 + k"] by (simp only: zero_less_numeral)
  finally have u: "ulp x = 1 / 2 ^ (52 + k)" .
  show ?thesis using x by (simp add: round_double_def u)
qed

subsection \<open>The colour ramp in floats\<close>

lemma round_double_numeral:
  assumes "numeral n < (2::int) ^ 53"
  shows "round_double (numeral n) = numeral n"
  using round_double_int [of "numeral n"] assms by simp

lemma round_double_1: "round_double 1 = 1"
  using round_double_int [of 1] by simp

lemma round_double_quarters:
  "round_double (1 / 4) = 1 / 4" "round_double (1 / 2) = 1 / 2" "round_double (3 / 4) = 3 / 4"
  using round_double_dyadic [of 1 2] round_double_dyadic [of 1 1] round_double_dyadic [of 3 2]
  by simp_all

lemma population_color_band:
  "population_color q = (case band_formula q of (r, g, b) \<Rightarrow> [py_int r, py_int g, py_int b, 200])"
  by (simp add: population_color_def band_formula_def Let_def py_int_def)

lemma param_first:
  assumes "0 \<le> t" and "t < 1 / 4"
  shows "0 \<le> fdiv t (1 / 4) \<and> fdiv t (1 / 4) \<le> 1"
  unfolding fdiv_def
  by (rule round_double_range [of 0]) (use assms in \<open>simp_all add: round_double_0 round_double_1\<close>)

lemma param_later:
  assumes "a \<le> t" and "t \<le> a + 1 / 4"
  shows "0 \<le> fdiv (fsub t a) (1 / 4) \<and> fdiv (fsub t a) (1 / 4) \<le> 1"
proof -
  have "0 \<le> round_double (t - a) \<and> round_double (t - a) \<le> 1 / 4"
    by (rule round_double_range) (use assms in \<open>simp_all add: round_double_0 round_double_quarters\<close>)
  then show ?thesis
    unfolding fdiv_def fsub_def
    by (intro round_double_range) (simp_all add: round_double_0 round_double_1)
qed

lemma rising:
  assumes "0 \<le> s" and "s \<le> 1" and "0 \<le> a" and "0 \<le> c"
    and "round_double a = a" and "round_double c = c" and "round_double (a + c) = a + c"
  shows "a \<le> fadd a (fmul c s) \<and> fadd a (fmul c s) \<le> a + c"
proof -
  have "c * s \<le> c * 1" using assms(2,4) by (rule mult_left_mono)
  then have "0 \<le> round_double (c * s) \<and> round_double (c * s) \<le> c"
    by (intro round_double_range) (use assms in \<open>simp_all add: round_double_0\<close>)
  then show ?thesis
    unfolding fadd_def fmul_def
    by (intro round_double_range) (use assms in simp_all)
qed

lemma falling:
  assumes "0 \<le> s" and "s \<le> 1" and "0 \<le> c" and "c \<le> a"
    and "round_double a = a" and "round_double c = c" and "round_double (a - c) = a - c"
  shows "a - c \<le> fsub a (fmul c s) \<and> fsub a (fmul c s) \<le> a"
proof -
  have "c * s \<le> c * 1" using assms(2,3) by (rule mult_left_mono)
  then have "0 \<le> round_double (c * s) \<and> round_double (c * s) \<le> c"
    by (intro round_double_range) (use assms in \<open>simp_all add: round_double_0\<close>)
  then show ?thesis
    unfolding fsub_def fmul_def
    by (intro round_double_range) (use assms in simp_all)
qed

lemma first_band:
  assumes "0 \<le> s" and "s \<le> 1"
  shows "60 \<le> fadd 60 (fmul 140 s) \<and> fadd 60 (fmul 140 s) \<le> 200"
    and "150 \<le> fadd 150 (fmul 105 s) \<and> fadd 150 (fmul 105 s) \<le> 255"
  using rising [OF assms, of 60 140] rising [OF assms, of 150 105]
  by (simp_all add: round_double_numeral)

lemma second_band:
  assumes "0 \<le> s" and "s \<le> 1"
  shows "30 \<le> fadd 30 (fmul 100 s) \<and> fadd 30 (fmul 100 s) \<le> 130"
    and "200 \<le> fadd 200 (fmul 55 s) \<and> fadd 200 (fmul 55 s) \<le> 255"
    and "155 \<le> fsub 255 (fmul 100 s) \<and> fsub 255 (fmul 100 s) \<le> 255"
  using rising [OF assms, of 30 100] rising [OF assms, of 200 55] falling [OF assms, of 100 255]
  by (simp_all add: round_double_numeral)

lemma third_band:
  assumes "0 \<le> s" and "s \<le> 1"
  shows "130 \<le> fadd 130 (fmul 125 s) \<and> fadd 130 (fmul 125 s) \<le> 255"
    and "200 \<le> fsub 255 (fmul 55 s) \<and> fsub 255 (fmul 55 s) \<le> 255"
    and "50 \<le> fsub 155 (fmul 105 s) \<and> fsub 155 (fmul 105 s) \<le> 155"
  using rising [OF assms, of 130 125] falling [OF assms, of 55 255] falling [OF assms, of 105 155]
  by (simp_all add: round_double_numeral)

lemma fourth_band:
  assumes "0 \<le> s" and "s \<le> 1"
  shows "70 \<le> fsub 200 (fmul 130 s) \<and> fsub 200 (fmul 130 s) \<le> 200"
    and "0 \<le> fsub 50 (fmul 50 s) \<and> fsub 50 (fmul 50 s) \<le> 50"
  using falling [OF assms, of 130 200] falling [OF assms, of 50 50]
  by (simp_all add: round_double_numeral round_double_0)

lemma band_formula_range:
  assumes "0 \<le> q" and "q \<le> 1"
  shows "case band_formula q of (r, g, b) \<Rightarrow>
           0 \<le> r \<and> r \<le> 255 \<and> 0 \<le> g \<and> g \<le> 255 \<and> 0 \<le> b \<and> b \<le> 255"
proof -
  define t where "t = round_double q"
  have t: "0 \<le> t \<and> t \<le> 1"
    unfolding t_def
    by (rule round_double_range) (use assms in \<open>simp_all add: round_double_0 round_double_1\<close>)
  consider "t < 1 / 4" | "1 / 4 \<le> t" "t < 1 / 2" | "1 / 2 \<le> t" "t < 3 / 4" | "3 / 4 \<le> t"
    by linarith
  then show ?thesis
  proof cases
    case 1
    then have s: "0 \<le> fdiv t (1 / 4)" "fdiv t (1 / 4) \<le> 1" using param_first [of t] t by simp_all
    show ?thesis
      using 1 first_band [OF s]
      by (simp add: band_formula_def t_def [symmetric] Let_def)
  next
    case 2
    then have s: "0 \<le> fdiv (fsub t (1 / 4)) (1 / 4)" "fdiv (fsub t (1 / 4)) (1 / 4) \<le> 1"
      using param_later [of "1 / 4" t] by simp_all
    show ?thesis
      using 2 second_band [OF s]
      by (simp add: band_formula_def t_def [symmetric] Let_def)
  next
    case 3
    then have s: "0 \<le> fdiv (fsub t (1 / 2)) (1 / 4)" "fdiv (fsub t (1 / 2)) (1 / 4) \<le> 1"
      using param_later [of "1 / 2" t] by simp_all
    show ?thesis
      using 3 third_band [OF s]
      by (simp add: band_formula_def t_def [symmetric] Let_def)
  next
    case 4
    then have s: "0 \<le> fdiv (fsub t (3 / 4)) (1 / 4)" "fdiv (fsub t (3 / 4)) (1 / 4) \<le> 1"
      using param_later [of "3 / 4" t] t by simp_all
    show ?thesis
      using 4 fourth_band [OF s]
      by (simp add: band_formula_def t_def [symmetric] Let_def)
  qed
qed

lemma population_color_eq_floor:
  assumes "0 \<le> t" and "t \<le> 1"
  shows "population_color t = floor_color t"
  using band_formula_range [OF assms]
  by (auto simp: population_color_band floor_color_def py_int_def split: prod.splits)

lemma population_color_alpha: "population_color t ! 3 = 200"
  by (simp add: population_color_band split: prod.splits)

lemma floor_within:
  fixes x :: real
  assumes "0 \<le> x" and "x \<le> 255"
  shows "0 \<le> \<lfloor>x\<rfloor> \<and> \<lfloor>x\<rfloor> \<le> 255"
proof -
  have "\<lfloor>x\<rfloor> \<le> \<lfloor>255 :: real\<rfloor>" using assms(2) by (rule floor_mono)
  then show ?thesis using assms(1) by simp
qed

lemma population_color_channels:
  assumes "0 \<le> t" and "t \<le> 1" and "c \<in> set (population_color t)"
  shows "0 \<le> c \<and> c \<le> 255"
proof -
  obtain r g b where f: "band_formula t = (r, g, b)" by (cases "band_formula t") auto
  have "0 \<le> r \<and> r \<le> 255 \<and> 0 \<le> g \<and> g \<le> 255 \<and> 0 \<le> b \<and> b \<le> 255"
    using band_formula_range [OF assms(1,2)] by (simp add: f)
  then have "0 \<le> \<lfloor>r\<rfloor> \<and> \<lfloor>r\<rfloor> \<le> 255" "0 \<le> \<lfloor>g\<rfloor> \<and> \<lfloor>g\<rfloor> \<le> 255" "0 \<le> \<lfloor>b\<rfloor> \<and> \<lfloor>b\<rfloor> \<le> 255"
    using floor_within by blast+
  moreover have "c \<in> {\<lfloor>r\<rfloor>, \<lfloor>g\<rfloor>, \<lfloor>b\<rfloor>, 200}"
    using assms(3) population_color_eq_floor [OF assms(1,2)] by (simp add: floor_color_def f)
  ultimately show ?thesis by auto
qed

lemma population_color_at_boundaries:
  "population_color 0 = [30, 60, 150, 200]" "population_color (1 / 4) = [30, 200, 255, 200]"
  "population_color (1 / 2) = [130, 255, 155, 200]" "population_color (3 / 4) = [255, 200, 50, 200]"
  "population_color 1 = [255, 70, 0, 200]"
  by (simp_all add: population_color_def fadd_def fsub_def fmul_def fdiv_def py_int_def
        round_double_0 round_double_1 round_double_quarters round_double_numeral)

lemma round_double_sixteenths:
  "round_double (3 / 16) = 3 / 16" "round_double (315 / 4) = 315 / 4"
  "round_double (915 / 4) = 915 / 4"
  using round_double_dyadic [of 3 4] round_double_dyadic [of 315 2] round_double_dyadic [of 915 2]
  by simp_all

lemma band_formula_three_sixteenths: "band_formula (3 / 16) = (30, 165, 915 / 4)"
  by (simp add: band_formula_def fadd_def fmul_def fdiv_def
        round_double_sixteenths round_double_quarters round_double_numeral)

lemma rank_29_param:
  "fdiv (fsub (round_double (29 / 100)) (1 / 4)) (1 / 4) = 720575940379279 / 4503599627370496"
proof -
  have t: "round_double (29 / 100) = 5224175567749775 / 18014398509481984"
    using round_double_small [of 2 "29 / 100"] by (simp add: round_half_even_def)
  have d: "round_double (720575940379279 / 18014398509481984) = 720575940379279 / 18014398509481984"
    using round_double_dyadic [of 720575940379279 54] by simp
  have s: "round_double (720575940379279 / 4503599627370496) = 720575940379279 / 4503599627370496"
    using round_double_dyadic [of 720575940379279 52] by simp
  show ?thesis
    by (simp add: fdiv_def fsub_def t d s)
qed

lemma rank_29_products:
  "fmul 100 (720575940379279 / 4503599627370496) = 2251799813685247 / 140737488355328"
  "fmul 55 (720575940379279 / 4503599627370496) = 4953959590107543 / 562949953421312"
proof -
  show "fmul 100 (720575940379279 / 4503599627370496) = 2251799813685247 / 140737488355328"
    unfolding fmul_def
    using round_double_large [of 3 "100 * (720575940379279 / 4503599627370496)"]
    by (simp add: round_half_even_def)
  show "fmul 55 (720575940379279 / 4503599627370496) = 4953959590107543 / 562949953421312"
    unfolding fmul_def
    using round_double_large [of 3 "55 * (720575940379279 / 4503599627370496)"]
    by (simp add: round_half_even_def)
qed

lemma rank_29_sums:
  "fadd 30 (2251799813685247 / 140737488355328) = 6473924464345087 / 140737488355328"
  "fadd 200 (4953959590107543 / 562949953421312) = 7346496892148121 / 35184372088832"
  "fsub 255 (2251799813685247 / 140737488355328) = 239"
proof -
  show "fadd 30 (2251799813685247 / 140737488355328) = 6473924464345087 / 140737488355328"
    unfolding fadd_def
    using round_double_large [of 5 "30 + 2251799813685247 / 140737488355328"]
    by (simp add: round_half_even_def)
  show "fadd 200 (4953959590107543 / 562949953421312) = 7346496892148121 / 35184372088832"
    unfolding fadd_def
    using round_double_large [of 7 "200 + 4953959590107543 / 562949953421312"]
    by (simp add: round_half_even_def)
  show "fsub 255 (2251799813685247 / 140737488355328) = 239"
    unfolding fsub_def
    using round_double_large [of 7 "255 - 2251799813685247 / 140737488355328"]
    by (simp add: round_half_even_def)
qed

lemma band_formula_rank_29:
  "band_formula (29 / 100)
   = (6473924464345087 / 140737488355328, 7346496892148121 / 35184372088832, 239)"
proof -
  have t: "round_double (29 / 100) = 5224175567749775 / 18014398509481984"
    using round_double_small [of 2 "29 / 100"] by (simp add: round_half_even_def)
  have "band_formula (29 / 100)
     = (let s = fdiv (fsub (round_double (29 / 100)) (1 / 4)) (1 / 4)
        in (fadd 30 (fmul 100 s), fadd 200 (fmul 55 s), fsub 255 (fmul 100 s)))"
    by (simp add: band_formula_def t)
  then show ?thesis
    unfolding rank_29_param Let_def rank_29_products rank_29_sums .
qed

lemma population_color_rank_29: "population_color (29 / 100) = [45, 208, 239, 200]"
  by (simp add: population_color_band band_formula_rank_29 py_int_def)

subsection \<open>Rounding to four decimals and the two-county run\<close>

lemma round_half_even_error: "\<bar>of_int (round_half_even y) - y\<bar> \<le> 1 / 2"
proof -
  have "of_int \<lfloor>y\<rfloor> \<le> y" "y < of_int \<lfloor>y\<rfloor> + 1" by linarith+
  then show ?thesis by (auto simp: round_half_even_def Let_def)
qed

lemma py_round_lower: "of_int k / 10 ^ n \<le> x \<Longrightarrow> of_int k / 10 ^ n \<le> py_round x n"
proof -
  assume "of_int k / 10 ^ n \<le> x"
  then have "of_int k \<le> x * 10 ^ n" by (simp add: field_simps)
  then have "k \<le> round_half_even (x * 10 ^ n)" by (rule round_half_even_lower)
  then have "(of_int k :: real) \<le> of_int (round_half_even (x * 10 ^ n))" by simp
  then show ?thesis by (simp add: py_round_def divide_right_mono)
qed

lemma py_round_upper: "x \<le> of_int k / 10 ^ n \<Longrightarrow> py_round x n \<le> of_int k / 10 ^ n"
proof -
  assume "x \<le> of_int k / 10 ^ n"
  then have "x * 10 ^ n \<le> of_int k" by (simp add: field_simps)
  then have "round_half_even (x * 10 ^ n) \<le> k" by (rule round_half_even_upper)
  then have "(of_int (round_half_even (x * 10 ^ n)) :: real) \<le> of_int k" by simp
  then show ?thesis by (simp add: py_round_def divide_right_mono)
qed

lemma py_round_error: "\<bar>py_round x n - x\<bar> \<le> 1 / (2 * 10 ^ n)"
proof -
  let ?e = "\<bar>of_int (round_half_even (x * 10 ^ n)) - x * 10 ^ n\<bar>"
  have "?e \<le> 1 / 2"
    by (rule round_half_even_error)
  then have "?e / 10 ^ n \<le> (1 / 2) / 10 ^ n"
    by (rule divide_right_mono) simp
  moreover have "py_round x n - x = (of_int (round_half_even (x * 10 ^ n)) - x * 10 ^ n) / 10 ^ n"
    by (simp add: py_round_def diff_divide_distrib)
  then have "\<bar>py_round x n - x\<bar> = ?e / \<bar>10 ^ n\<bar>"
    by (simp only: abs_divide)
  then have "\<bar>py_round x n - x\<bar> = ?e / 10 ^ n"
    by (metis abs_of_nonneg zero_le_numeral zero_le_power)
  moreover have "(1 / 2) / 10 ^ n = 1 / (2 * (10::real) ^ n)"
    by simp
  ultimately show ?thesis by (simp only:)
qed

lemma log_la_lower: "7 \<le> log 10 10000001"
proof -
  have e: "log 10 ((10::real) ^ 7) = 7"
    using log_pow_cancel [of 10 7] by simp
  have m: "log 10 ((10::real) ^ 7) \<le> log 10 10000001"
    by simp
  show ?thesis using e m by linarith
qed

lemma log_sd_upper: "log 10 3000001 \<le> 13 / 2"
proof -
  have e: "log 10 ((10::real) ^ 13) = 13"
    using log_pow_cancel [of 10 13] by simp
  have s: "log 10 ((3000001::real) ^ 2) = 2 * log 10 3000001"
    using log_nat_power [of 3000001 10 2] by simp
  have m: "log 10 ((3000001::real) ^ 2) \<le> log 10 ((10::real) ^ 13)"
    by simp
  show ?thesis using e s m by linarith
qed

lemma rounded_logs: "py_round (log 10 3000001) 4 < py_round (log 10 10000001) 4"
proof -
  have "py_round (log 10 3000001) 4 \<le> of_int 65000 / 10 ^ 4"
    by (rule py_round_upper) (use log_sd_upper in simp)
  moreover have "of_int 70000 / 10 ^ 4 \<le> py_round (log 10 10000001) 4"
    by (rule py_round_lower) (use log_la_lower in simp)
  ultimately show ?thesis by simp
qed

lemma py_round_exact: "py_round 1 4 = 1 \<and> py_round (1 / 2) 4 = 1 / 2
   \<and> py_round (2 / 3) 4 = 6667 / 10000 \<and> py_round (1 / 3) 4 = 3333 / 10000"
  by (simp add: py_round_def round_half_even_def Let_def)

lemma scenario_table:
  assumes "to_numeric ''10000000'' = Some 10000000" and "to_numeric ''3000000'' = Some 3000000"
  shows "\<exists>la sd. derive (df_population to_numeric scenario_rows) = [la, sd]
     \<and> FIPS la = ''06037'' \<and> NAME la = ''Los Angeles County, California''
     \<and> population la = 10000000 \<and> population_formatted la = ''10,000,000''
     \<and> log_pop la = log 10 10000001 \<and> quantile la = 1 \<and> fill_color la = [255, 70, 0, 200]
     \<and> FIPS sd = ''06073'' \<and> NAME sd = ''San Diego County, California''
     \<and> population sd = 3000000 \<and> population_formatted sd = ''3,000,000''
     \<and> log_pop sd = log 10 3000001 \<and> quantile sd = 1 / 2 \<and> fill_color sd = [130, 255, 155, 200]"
proof -
  have pop: "df_population to_numeric scenario_rows
      = [(scenario_rows ! 0, 10000000), (scenario_rows ! 1, 3000000)]"
    using assms by (simp add: df_population_def scenario_rows_def)
  show ?thesis
    unfolding pop
    by (simp add: derive_def scenario_rows_def rank_pct_def average_rank_def
        population_color_at_boundaries py_int_def format_thousands_def digit_char_def)
qed

lemma scenario_run:
  assumes "to_numeric ''10000000'' = Some 10000000" and "to_numeric ''3000000'' = Some 3000000"
  shows "\<exists>la sd. derive (df_population to_numeric scenario_rows) = [la, sd]
     \<and> FIPS la = ''06037'' \<and> NAME la = ''Los Angeles County, California''
     \<and> population la = 10000000 \<and> population_formatted la = ''10,000,000''
     \<and> log_pop la = log 10 10000001 \<and> quantile la = 1 \<and> fill_color la = [255, 70, 0, 200]
     \<and> FIPS sd = ''06073'' \<and> NAME sd = ''San Diego County, California''
     \<and> population sd = 3000000 \<and> population_formatted sd = ''3,000,000''
     \<and> log_pop sd = log 10 3000001 \<and> quantile sd = 1 / 2 \<and> fill_color sd = [130, 255, 155, 200]
     \<and> prepare_data to_numeric (Response 200 (Some scenario_features))
          (Response 200 (Some scenario_rows)) no_files
        = (None, no_files\<lparr>geojson_file :=
                   Some [attach (lookup_entry la) ''06037'' (scenario_features ! 0),
                         attach (lookup_entry sd) ''06073'' (scenario_features ! 1)],
                 csv_file := Some (df_out [la, sd])\<rparr>)"
proof -
  obtain la sd where t: "derive (df_population to_numeric scenario_rows) = [la, sd]"
     "FIPS la = ''06037''" "NAME la = ''Los Angeles County, California''"
     "population la = 10000000" "population_formatted la = ''10,000,000''"
     "log_pop la = log 10 10000001" "quantile la = 1" "fill_color la = [255, 70, 0, 200]"
     "FIPS sd = ''06073''" "NAME sd = ''San Diego County, California''"
     "population sd = 3000000" "population_formatted sd = ''3,000,000''"
     "log_pop sd = log 10 3000001" "quantile sd = 1 / 2" "fill_color sd = [130, 255, 155, 200]"
    using scenario_table [OF assms] by blast
  have "matched_features (value_lookup [la, sd]) scenario_features
        = Inr [attach (lookup_entry la) ''06037'' (scenario_features ! 0),
               attach (lookup_entry sd) ''06073'' (scenario_features ! 1)]"
    by (simp add: t(2,9) value_lookup_def scenario_features_def feature_fips_def)
  then have "prepare_data to_numeric (Response 200 (Some scenario_features))
          (Response 200 (Some scenario_rows)) no_files
        = (None, no_files\<lparr>geojson_file :=
                   Some [attach (lookup_entry la) ''06037'' (scenario_features ! 0),
                         attach (lookup_entry sd) ''06073'' (scenario_features ! 1)],
                 csv_file := Some (df_out [la, sd])\<rparr>)"
    using prepare_data_ok [OF fetch_ok fetch_ok, of to_numeric scenario_rows scenario_features _ no_files]
    by (simp add: t(1))
  then show ?thesis using t by blast
qed

lemma py_round_grid: "\<exists>k::int. py_round x 4 = of_int k / 10000"
  by (auto simp: py_round_def)

lemma py_round_error4: "\<bar>py_round x 4 - x\<bar> \<le> 1 / 20000"
  using py_round_error [of x 4] by simp

lemma mixed_outputs:
  "map_option (map (\<lambda>g. (map_of (properties g) ''fips'', map_of (properties g) ''quantile'')))
       (geojson_file (snd (prepare_data decimal_literal (Response 200 (Some mixed_features))
            (Response 200 (Some mixed_rows)) no_files)))
     = Some [(Some (JStr ''06037''), Some (JReal 1)),
             (Some (JStr ''06073''), Some (JReal (6667 / 10000))),
             (Some (JStr ''06003''), Some (JReal (3333 / 10000)))]
   \<and> map_option (map (\<lambda>(f, n, p, pf, l, q). (f, q)))
       (csv_file (snd (prepare_data decimal_literal (Response 200 (Some mixed_features))
            (Response 200 (Some mixed_rows)) no_files)))
     = Some [(''06037'', 1), (''06073'', 2 / 3), (''06003'', 1 / 3)]"
proof -
  obtain la sd al where t:
     "FIPS la = ''06037''" "quantile la = 1"
     "FIPS sd = ''06073''" "quantile sd = 2 / 3"
     "FIPS al = ''06003''" "quantile al = 1 / 3"
     and run: "prepare_data decimal_literal (Response 200 (Some mixed_features))
          (Response 200 (Some mixed_rows)) no_files
        = (None, no_files\<lparr>geojson_file :=
                   Some [attach (lookup_entry la) ''06037'' (mixed_features ! 0),
                         attach (lookup_entry sd) ''06073'' (mixed_features ! 1),
                         attach (lookup_entry al) ''06003'' (mixed_features ! 2)],
                 csv_file := Some (df_out [la, sd, al])\<rparr>)"
    using mixed_run by blast
  show ?thesis
    unfolding run
    using py_round_exact by (simp add: attach_entry t df_out_def)
qed

section \<open>The claims\<close>

text \<open>
  Claim C3. The colour ramp sends the five boundary ranks 0, 0.25, 0.5, 0.75 and 1 to
  [30,60,150,200], [30,200,255,200], [130,255,155,200], [255,200,50,200] and
  [255,70,0,200]. All five ranks and every intermediate value are floats, so no
  operation rounds here.
\<close>

theorem population_color_boundaries:
  "population_color 0 = [30, 60, 150, 200] \<and> population_color 0.25 = [30, 200, 255, 200]
   \<and> population_color 0.5 = [130, 255, 155, 200] \<and> population_color 0.75 = [255, 200, 50, 200]
   \<and> population_color 1 = [255, 70, 0, 200]"
  by (simp add: population_color_at_boundaries)

text \<open>
  Claim C4, as stated, fails: at rank 3/16 the blue formula is 150 + 105 * 0.75 = 228.75
  (every step exact in floats), whose nearest integer is 229, and the ramp returns 228.
\<close>

theorem population_color_not_nearest:
  "population_color (3 / 16) = [30, 165, 228, 200] \<and> nearest_color (3 / 16) = [30, 165, 229, 200]
   \<and> population_color (3 / 16) \<noteq> nearest_color (3 / 16)"
  by (simp add: population_color_band nearest_color_def band_formula_three_sixteenths
        py_int_def round_def)

text \<open>
  Claim C4, amended. For every rank \<open>t\<close> in [0,1] each of the R, G, B channels is the
  band's linear formula, as evaluated in floats, rounded down to an integer (\<^verbatim>\<open>int\<close>
  truncates, and the formulas are never negative on [0,1]), each channel lies between
  0 and 255, and the alpha channel is 200 for every argument.
\<close>

theorem population_color_floor:
  assumes "0 \<le> t" and "t \<le> 1"
  shows "population_color t = floor_color t
         \<and> (\<forall>c \<in> set (population_color t). 0 \<le> c \<and> c \<le> 255)
         \<and> (\<forall>u. population_color u ! 3 = 200)"
  using assms population_color_eq_floor population_color_channels population_color_alpha by blast

text \<open>
  The amended claim C4 at rank 29/100, where the float evaluation of the red formula
  30 + 100 * 0.16 stays just below 46.
\<close>

theorem population_color_floor_witness:
  "(0::real) \<le> 29 / 100 \<and> (29 / 100 :: real) \<le> 1
   \<and> population_color (29 / 100) = floor_color (29 / 100)
   \<and> floor_color (29 / 100) = [45, 208, 239, 200]
   \<and> 45 \<in> set (population_color (29 / 100)) \<and> (0::int) \<le> 45 \<and> (45::int) \<le> 255"
  using population_color_floor [of "29 / 100"]
  by (simp add: floor_color_def band_formula_rank_29)

text \<open>
  Claim C5. In the derived table of any (hence non-empty) cleaned table, every record's
  rank lies in (0, 1]; of two records, the one with the larger population has a rank
  at least as large; equal populations receive equal ranks.
\<close>

theorem quantile_range_monotone:
  assumes "r1 \<in> set (derive df)" and "r2 \<in> set (derive df)"
  shows "0 < quantile r1 \<and> quantile r1 \<le> 1
         \<and> (population r1 \<le> population r2 \<longrightarrow> quantile r1 \<le> quantile r2)
         \<and> (population r1 = population r2 \<longrightarrow> quantile r1 = quantile r2)"
proof -
  obtain c1 p1 where 1: "(c1, p1) \<in> set df" "population r1 = p1" "quantile r1 = rank_pct (map snd df) p1"
    using derive_mem [OF assms(1)] by blast
  obtain c2 p2 where 2: "(c2, p2) \<in> set df" "population r2 = p2" "quantile r2 = rank_pct (map snd df) p2"
    using derive_mem [OF assms(2)] by blast
  have m1: "p1 \<in> set (map snd df)" using 1(1) by force
  have m2: "p2 \<in> set (map snd df)" using 2(1) by force
  have "p1 \<le> p2 \<longrightarrow> rank_pct (map snd df) p1 \<le> rank_pct (map snd df) p2"
    using rank_pct_strict [OF m1 m2] by (cases "p1 = p2") auto
  then show ?thesis
    using rank_pct_pos [OF m1] rank_pct_le_1 [OF m1] 1 2 by auto
qed

text \<open>Claim C5 on the table with a tie: ranks 1/2, 1/2 and 1.\<close>

theorem quantile_range_monotone_witness:
  "derive tied_table ! 0 \<in> set (derive tied_table) \<and> derive tied_table ! 2 \<in> set (derive tied_table)
   \<and> population (derive tied_table ! 0) \<le> population (derive tied_table ! 2)
   \<and> quantile (derive tied_table ! 0) = 1 / 2 \<and> quantile (derive tied_table ! 1) = 1 / 2
   \<and> quantile (derive tied_table ! 2) = 1
   \<and> 0 < quantile (derive tied_table ! 0) \<and> quantile (derive tied_table ! 0) \<le> 1
   \<and> quantile (derive tied_table ! 0) \<le> quantile (derive tied_table ! 2)"
  using quantile_range_monotone [of "derive tied_table ! 0" tied_table "derive tied_table ! 2"]
  by (simp add: derive_def tied_table_def rank_pct_def average_rank_def)

text \<open>
  Claim C6. Every surviving record has a population \<open>p > 0\<close>, its log-scaled magnitude
  is the base-10 logarithm of \<open>p + 1\<close>, and of two surviving records the one with the
  strictly larger population has the strictly larger magnitude.
\<close>

theorem log_pop_monotone:
  assumes "r1 \<in> set (derive (df_population to_numeric rows))"
      and "r2 \<in> set (derive (df_population to_numeric rows))"
  shows "0 < population r1 \<and> log_pop r1 = log 10 (population r1 + 1)
         \<and> (population r1 < population r2 \<longrightarrow> log_pop r1 < log_pop r2)"
proof -
  obtain c1 where 1: "(c1, population r1) \<in> set (df_population to_numeric rows)"
      "log_pop r1 = log 10 (population r1 + 1)"
    using derive_mem [OF assms(1)] by blast
  obtain c2 where 2: "(c2, population r2) \<in> set (df_population to_numeric rows)"
      "log_pop r2 = log 10 (population r2 + 1)"
    using derive_mem [OF assms(2)] by blast
  have "0 < population r1" using 1(1) by (simp add: df_population_iff)
  moreover have "0 < population r2" using 2(1) by (simp add: df_population_iff)
  ultimately show ?thesis using 1(2) 2(2) by simp
qed

text \<open>Claim C6 on the two-county run.\<close>

theorem log_pop_monotone_witness:
  "derive (df_population decimal_literal scenario_rows) ! 1 \<in> set (derive (df_population decimal_literal scenario_rows))
   \<and> derive (df_population decimal_literal scenario_rows) ! 0 \<in> set (derive (df_population decimal_literal scenario_rows))
   \<and> population (derive (df_population decimal_literal scenario_rows) ! 1) = 3000000
   \<and> population (derive (df_population decimal_literal scenario_rows) ! 0) = 10000000
   \<and> log_pop (derive (df_population decimal_literal scenario_rows) ! 1) = log 10 3000001
   \<and> log_pop (derive (df_population decimal_literal scenario_rows) ! 1)
       < log_pop (derive (df_population decimal_literal scenario_rows) ! 0)"
  using log_pop_monotone [of "derive (df_population decimal_literal scenario_rows) ! 1" decimal_literal scenario_rows
      "derive (df_population decimal_literal scenario_rows) ! 0"]
  by (simp add: scenario_population derive_def)




text \<open>
  Claim C9. The derived fields of a record are determined by its population and by the
  multiset of populations in the table: in two runs whose tables hold the same
  populations (in particular in two runs on identical responses), records with the
  same population get the same log-scaled magnitude, rank and colour. Tied records
  share one averaged rank, whatever their order in the table.
\<close>

theorem derived_fields_deterministic:
  assumes "mset (map snd df1) = mset (map snd df2)"
      and "r1 \<in> set (derive df1)" and "r2 \<in> set (derive df2)"
      and "population r1 = population r2"
  shows "log_pop r1 = log_pop r2 \<and> quantile r1 = quantile r2 \<and> fill_color r1 = fill_color r2"
proof -
  obtain c1 where 1: "log_pop r1 = log 10 (population r1 + 1)"
      "quantile r1 = rank_pct (map snd df1) (population r1)"
      "fill_color r1 = population_color (rank_pct (map snd df1) (population r1))"
    using derive_mem [OF assms(2)] by blast
  obtain c2 where 2: "log_pop r2 = log 10 (population r2 + 1)"
      "quantile r2 = rank_pct (map snd df2) (population r2)"
      "fill_color r2 = population_color (rank_pct (map snd df2) (population r2))"
    using derive_mem [OF assms(3)] by blast
  show ?thesis
    using 1 2 assms(4) rank_pct_mset [OF assms(1)] by simp
qed

text \<open>Claim C9 on the table with a tie and its reversal: county A there and county B here.\<close>

theorem derived_fields_deterministic_witness:
  "mset (map snd tied_table) = mset (map snd (rev tied_table))
   \<and> derive tied_table ! 0 \<in> set (derive tied_table)
   \<and> derive (rev tied_table) ! 1 \<in> set (derive (rev tied_table))
   \<and> population (derive tied_table ! 0) = population (derive (rev tied_table) ! 1)
   \<and> NAME (derive tied_table ! 0) = ''A'' \<and> NAME (derive (rev tied_table) ! 1) = ''B''
   \<and> log_pop (derive tied_table ! 0) = log_pop (derive (rev tied_table) ! 1)
   \<and> quantile (derive tied_table ! 0) = quantile (derive (rev tied_table) ! 1)
   \<and> fill_color (derive tied_table ! 0) = fill_color (derive (rev tied_table) ! 1)"
  using derived_fields_deterministic [of tied_table "rev tied_table" "derive tied_table ! 0"
      "derive (rev tied_table) ! 1"]
  by (simp add: derive_def tied_table_def)

text \<open>
  Claim C1. The statistics source gives every county a two-character state code, a
  three-character county code and a head count, so that a positive population is at
  least 1. On such a response, after a successful run the geometry collection
  consists, in order, of exactly the polygons whose identifier is the concatenated
  state and county code of a row that survived cleaning (every other polygon is
  absent, none is kept with null attributes), and each output feature carries that
  five-character identifier and a strictly positive integer population.
\<close>

theorem join_completeness:
  assumes "prepare_data to_numeric counties_resp census_resp fs = (None, fs')"
      and "fetch counties_resp = Inr features" and "fetch census_resp = Inr rows"
      and "\<forall>r \<in> set rows. length (state r) = 2 \<and> length (county r) = 3"
      and "\<forall>r \<in> set rows. \<forall>v. to_numeric (B01003_001E r) = Some v \<longrightarrow> 0 < v \<longrightarrow> 1 \<le> v"
  shows "\<exists>out. geojson_file fs' = Some out
     \<and> map geometry out
         = map geometry
             (filter (\<lambda>f. \<exists>r v. (r, v) \<in> set (df_population to_numeric rows)
                                  \<and> feature_fips f = Inr (state r @ county r)) features)
     \<and> (\<forall>g \<in> set out. \<exists>r v.
           r \<in> set rows \<and> to_numeric (B01003_001E r) = Some v \<and> 0 < v
           \<and> map_of (properties g) ''fips'' = Some (JStr (state r @ county r))
           \<and> length (state r @ county r) = 5
           \<and> map_of (properties g) ''population'' = Some (JInt (py_int v))
           \<and> 0 < py_int v)"
proof -
  let ?df = "derive (df_population to_numeric rows)"
  obtain out where out: "matched_features (value_lookup ?df) features = Inr out"
      "fs' = fs\<lparr>geojson_file := Some out, csv_file := Some (df_out ?df)\<rparr>"
    using prepare_data_None [OF assms(1)] assms(2,3) by auto
  have "fips_matches (value_lookup ?df) f
        \<longleftrightarrow> (\<exists>r v. (r, v) \<in> set (df_population to_numeric rows) \<and> feature_fips f = Inr (state r @ county r))"
    for f :: "'a feature"
    unfolding fips_matches_iff
    by (metis derive_row derive_row_conv)
  then have fm: "fips_matches (value_lookup ?df)
      = (\<lambda>f :: 'a feature. \<exists>r v. (r, v) \<in> set (df_population to_numeric rows)
                                  \<and> feature_fips f = Inr (state r @ county r))"
    by (rule ext)
  have geo: "map geometry out
      = map geometry (filter (\<lambda>f. \<exists>r v. (r, v) \<in> set (df_population to_numeric rows)
                                  \<and> feature_fips f = Inr (state r @ county r)) features)"
    using matched_features_geometry [OF out(1)] unfolding fm .
  have "\<exists>r v. r \<in> set rows \<and> to_numeric (B01003_001E r) = Some v \<and> 0 < v
           \<and> map_of (properties g) ''fips'' = Some (JStr (state r @ county r))
           \<and> length (state r @ county r) = 5
           \<and> map_of (properties g) ''population'' = Some (JInt (py_int v))
           \<and> 0 < py_int v"
    if g_in: "g \<in> set out" for g
  proof -
    obtain row f where row: "row \<in> set ?df" "g = attach (lookup_entry row) (FIPS row) f"
      using matched_entry [OF out(1) g_in] by blast
    obtain r v where rv: "r \<in> set rows" "to_numeric (B01003_001E r) = Some v" "0 < v"
        "FIPS row = state r @ county r" "population row = v"
      using derive_row [OF row(1)] by blast
    have "length (state r @ county r) = 5" using assms(4) rv(1) by simp
    moreover have "1 \<le> v" using assms(5) rv(1,2,3) by blast
    then have "0 < py_int v" by (simp add: py_int_pos)
    ultimately show ?thesis
      using rv row(2) attach_entry [of row "FIPS row" f] by auto
  qed
  then show ?thesis using geo out(2) by simp
qed

text \<open>Claim C1 on the run with five polygons: three are kept.\<close>

theorem join_completeness_witness:
  "fetch (Response 200 (Some mixed_features)) = Inr mixed_features
   \<and> fetch (Response 200 (Some mixed_rows)) = Inr mixed_rows
   \<and> map (\<lambda>r. (length (state r), length (county r))) mixed_rows
       = [(2, 3), (2, 3), (2, 3), (2, 3), (2, 3), (2, 3)]
   \<and> map (\<lambda>r. decimal_literal (B01003_001E r)) mixed_rows
       = [Some 10000000, Some 3000000, Some 1200, Some (- 666666666), Some 0, None]
   \<and> fst (prepare_data decimal_literal (Response 200 (Some mixed_features))
            (Response 200 (Some mixed_rows)) no_files) = None
   \<and> map_option (map geometry)
       (geojson_file (snd (prepare_data decimal_literal (Response 200 (Some mixed_features))
            (Response 200 (Some mixed_rows)) no_files))) = Some [1, 2, 3]
   \<and> map_option (map (\<lambda>g. (map_of (properties g) ''fips'', map_of (properties g) ''population'')))
       (geojson_file (snd (prepare_data decimal_literal (Response 200 (Some mixed_features))
            (Response 200 (Some mixed_rows)) no_files)))
     = Some [(Some (JStr ''06037''), Some (JInt 10000000)),
             (Some (JStr ''06073''), Some (JInt 3000000)),
             (Some (JStr ''06003''), Some (JInt 1200))]"
proof -
  obtain la sd al where t:
     "FIPS la = ''06037''" "population la = 10000000"
     "FIPS sd = ''06073''" "population sd = 3000000"
     "FIPS al = ''06003''" "population al = 1200"
     and run: "prepare_data decimal_literal (Response 200 (Some mixed_features))
          (Response 200 (Some mixed_rows)) no_files
        = (None, no_files\<lparr>geojson_file :=
                   Some [attach (lookup_entry la) ''06037'' (mixed_features ! 0),
                         attach (lookup_entry sd) ''06073'' (mixed_features ! 1),
                         attach (lookup_entry al) ''06003'' (mixed_features ! 2)],
                 csv_file := Some (df_out [la, sd, al])\<rparr>)"
    using mixed_run by blast
  have w: "\<forall>r \<in> set mixed_rows. length (state r) = 2 \<and> length (county r) = 3"
    by (simp add: mixed_rows_def)
  have c: "\<forall>r \<in> set mixed_rows. \<forall>v. decimal_literal (B01003_001E r) = Some v \<longrightarrow> 0 < v \<longrightarrow> 1 \<le> v"
    by (simp add: mixed_rows_def decimal_literal_def unsigned_decimal_def digit_value_def)
  have "\<exists>out. geojson_file (no_files\<lparr>geojson_file :=
                   Some [attach (lookup_entry la) ''06037'' (mixed_features ! 0),
                         attach (lookup_entry sd) ''06073'' (mixed_features ! 1),
                         attach (lookup_entry al) ''06003'' (mixed_features ! 2)],
                 csv_file := Some (df_out [la, sd, al])\<rparr>) = Some out"
    using join_completeness [OF run fetch_ok fetch_ok w c] by blast
  then have "fetch (Response 200 (Some mixed_features)) = Inr mixed_features
   \<and> fetch (Response 200 (Some mixed_rows)) = Inr mixed_rows
   \<and> fst (prepare_data decimal_literal (Response 200 (Some mixed_features))
            (Response 200 (Some mixed_rows)) no_files) = None
   \<and> map_option (map geometry)
       (geojson_file (snd (prepare_data decimal_literal (Response 200 (Some mixed_features))
            (Response 200 (Some mixed_rows)) no_files))) = Some [1, 2, 3]
   \<and> map_option (map (\<lambda>g. (map_of (properties g) ''fips'', map_of (properties g) ''population'')))
       (geojson_file (snd (prepare_data decimal_literal (Response 200 (Some mixed_features))
            (Response 200 (Some mixed_rows)) no_files)))
     = Some [(Some (JStr ''06037''), Some (JInt 10000000)),
             (Some (JStr ''06073''), Some (JInt 3000000)),
             (Some (JStr ''06003''), Some (JInt 1200))]"
    unfolding run fetch_ok
    by (simp add: attach_entry attach_geometry t py_int_def mixed_features_def)
  moreover have "map (\<lambda>r. (length (state r), length (county r))) mixed_rows
       = [(2, 3), (2, 3), (2, 3), (2, 3), (2, 3), (2, 3)]"
    by (simp add: mixed_rows_def)
  moreover have "map (\<lambda>r. decimal_literal (B01003_001E r)) mixed_rows
       = [Some 10000000, Some 3000000, Some 1200, Some (- 666666666), Some 0, None]"
    by (simp add: mixed_rows_def decimal_literal_def unsigned_decimal_def digit_value_def)
  ultimately show ?thesis by (simp only: simp_thms)
qed

text \<open>
  Claim C2. A row survives cleaning exactly when its raw population field parses as a
  number and the number is strictly positive; the survivors keep their order. A field
  that does not parse, parses as 0 or parses as the sentinel -666666666 drops its row.
  After a successful run the tabular file has one line per surviving row and no other,
  and every feature of the geometry file takes its attributes from a surviving row.
\<close>

theorem cleaning_keeps_positive:
  "(\<forall>r v. (r, v) \<in> set (df_population to_numeric rows)
        \<longleftrightarrow> r \<in> set rows \<and> to_numeric (B01003_001E r) = Some v \<and> 0 < v)
   \<and> map fst (df_population to_numeric rows)
       = filter (\<lambda>r. \<exists>v. to_numeric (B01003_001E r) = Some v \<and> 0 < v) rows
   \<and> (\<forall>r :: census_row. to_numeric (B01003_001E r) = None \<or> to_numeric (B01003_001E r) = Some 0
           \<or> to_numeric (B01003_001E r) = Some (- 666666666)
         \<longrightarrow> r \<notin> fst ` set (df_population to_numeric rows))
   \<and> (prepare_data to_numeric counties_resp census_resp fs = (None, fs')
        \<and> fetch census_resp = Inr rows \<longrightarrow>
        (\<exists>out csv. geojson_file fs' = Some out \<and> csv_file fs' = Some csv
           \<and> map (\<lambda>(f, n, p, pf, l, q). (f, n, p)) csv
               = map (\<lambda>(r, v). (state r @ county r, NAME r, v)) (df_population to_numeric rows)
           \<and> (\<forall>g \<in> set out. \<exists>(r, v) \<in> set (df_population to_numeric rows).
                 map_of (properties g) ''fips'' = Some (JStr (state r @ county r))
                 \<and> map_of (properties g) ''county_name'' = Some (JStr (NAME r))
                 \<and> map_of (properties g) ''population'' = Some (JInt (py_int v)))))"
proof (intro conjI allI impI)
  fix r v
  show "(r, v) \<in> set (df_population to_numeric rows)
        \<longleftrightarrow> r \<in> set rows \<and> to_numeric (B01003_001E r) = Some v \<and> 0 < v"
    by (rule df_population_iff)
next
  show "map fst (df_population to_numeric rows)
       = filter (\<lambda>r. \<exists>v. to_numeric (B01003_001E r) = Some v \<and> 0 < v) rows"
    by (rule df_population_map_fst)
next
  fix r :: census_row
  assume "to_numeric (B01003_001E r) = None \<or> to_numeric (B01003_001E r) = Some 0
           \<or> to_numeric (B01003_001E r) = Some (- 666666666)"
  then show "r \<notin> fst ` set (df_population to_numeric rows)"
    by (auto simp: df_population_iff)
next
  let ?df = "derive (df_population to_numeric rows)"
  assume a: "prepare_data to_numeric counties_resp census_resp fs = (None, fs')
        \<and> fetch census_resp = Inr rows"
  then obtain features out where out: "matched_features (value_lookup ?df) features = Inr out"
      "fs' = fs\<lparr>geojson_file := Some out, csv_file := Some (df_out ?df)\<rparr>"
    using prepare_data_None [of to_numeric counties_resp census_resp fs fs'] by auto
  have csv: "map (\<lambda>(f, n, p, pf, l, q). (f, n, p)) (df_out ?df)
               = map (\<lambda>(r, v). (state r @ county r, NAME r, v)) (df_population to_numeric rows)"
    by (simp add: df_out_def derive_def case_prod_beta)
  have "\<exists>(r, v) \<in> set (df_population to_numeric rows).
                 map_of (properties g) ''fips'' = Some (JStr (state r @ county r))
                 \<and> map_of (properties g) ''county_name'' = Some (JStr (NAME r))
                 \<and> map_of (properties g) ''population'' = Some (JInt (py_int v))"
    if g_in: "g \<in> set out" for g
  proof -
    obtain row f where row: "row \<in> set ?df" "g = attach (lookup_entry row) (FIPS row) f"
      using matched_entry [OF out(1) g_in] by blast
    obtain r v where rv: "(r, v) \<in> set (df_population to_numeric rows)"
        "FIPS row = state r @ county r" "NAME row = NAME r" "population row = v"
      using derive_row [OF row(1)] by blast
    show ?thesis
      using rv row(2) attach_entry [of row "FIPS row" f] by (intro bexI [of _ "(r, v)"]) auto
  qed
  then show "\<exists>out csv. geojson_file fs' = Some out \<and> csv_file fs' = Some csv
           \<and> map (\<lambda>(f, n, p, pf, l, q). (f, n, p)) csv
               = map (\<lambda>(r, v). (state r @ county r, NAME r, v)) (df_population to_numeric rows)
           \<and> (\<forall>g \<in> set out. \<exists>(r, v) \<in> set (df_population to_numeric rows).
                 map_of (properties g) ''fips'' = Some (JStr (state r @ county r))
                 \<and> map_of (properties g) ''county_name'' = Some (JStr (NAME r))
                 \<and> map_of (properties g) ''population'' = Some (JInt (py_int v)))"
    using csv out(2) by simp
qed

text \<open>
  Claim C2 on the run with a sentinel row, a zero row and a non-numeric row: none of
  the three reaches either file, although the sentinel county has a polygon.
\<close>

theorem cleaning_keeps_positive_witness:
  "decimal_literal (B01003_001E (mixed_rows ! 3)) = Some (- 666666666)
   \<and> decimal_literal (B01003_001E (mixed_rows ! 4)) = Some 0
   \<and> decimal_literal (B01003_001E (mixed_rows ! 5)) = None
   \<and> map fst (df_population decimal_literal mixed_rows) = take 3 mixed_rows
   \<and> mixed_rows ! 3 \<notin> fst ` set (df_population decimal_literal mixed_rows)
   \<and> fetch (Response 200 (Some mixed_rows)) = Inr mixed_rows
   \<and> fst (prepare_data decimal_literal (Response 200 (Some mixed_features))
            (Response 200 (Some mixed_rows)) no_files) = None
   \<and> map_option (map (\<lambda>(f, n, p, pf, l, q). (f, p)))
       (csv_file (snd (prepare_data decimal_literal (Response 200 (Some mixed_features))
            (Response 200 (Some mixed_rows)) no_files)))
     = Some [(''06037'', 10000000), (''06073'', 3000000), (''06003'', 1200)]
   \<and> map_option (map (\<lambda>g. map_of (properties g) ''fips''))
       (geojson_file (snd (prepare_data decimal_literal (Response 200 (Some mixed_features))
            (Response 200 (Some mixed_rows)) no_files)))
     = Some [Some (JStr ''06037''), Some (JStr ''06073''), Some (JStr ''06003'')]"
proof -
  obtain la sd al where t:
     "FIPS la = ''06037''" "population la = 10000000"
     "FIPS sd = ''06073''" "population sd = 3000000"
     "FIPS al = ''06003''" "population al = 1200"
     and run: "prepare_data decimal_literal (Response 200 (Some mixed_features))
          (Response 200 (Some mixed_rows)) no_files
        = (None, no_files\<lparr>geojson_file :=
                   Some [attach (lookup_entry la) ''06037'' (mixed_features ! 0),
                         attach (lookup_entry sd) ''06073'' (mixed_features ! 1),
                         attach (lookup_entry al) ''06003'' (mixed_features ! 2)],
                 csv_file := Some (df_out [la, sd, al])\<rparr>)"
    using mixed_run by blast
  have lit: "decimal_literal (B01003_001E (mixed_rows ! 3)) = Some (- 666666666)
     \<and> decimal_literal (B01003_001E (mixed_rows ! 4)) = Some 0
     \<and> decimal_literal (B01003_001E (mixed_rows ! 5)) = None"
    using mixed_literals by (simp add: mixed_rows_def)
  have kept: "map fst (df_population decimal_literal mixed_rows) = take 3 mixed_rows"
    unfolding mixed_population by (simp add: mixed_rows_def)
  have gone: "mixed_rows ! 3 \<notin> fst ` set (df_population decimal_literal mixed_rows)"
    using cleaning_keeps_positive [of decimal_literal mixed_rows
        "Response 200 (Some mixed_features)" "Response 200 (Some mixed_rows)" no_files
        "snd (prepare_data decimal_literal (Response 200 (Some mixed_features))
            (Response 200 (Some mixed_rows)) no_files)"] lit
    by blast
  show ?thesis
    using lit kept gone
    by (simp add: run fetch_ok attach_entry t df_out_def)
qed

text \<open>
  Claim C7. With a boundary collection of exactly the counties 06037 and 06073 and a
  statistics response giving 10,000,000 to the first and 3,000,000 to the second (the
  parser reading the two literals as these numbers), the run succeeds and both files
  hold exactly these two identifiers; 06037 has rank 1 against 1/2, the larger
  log-scaled magnitude in the tabular file and, after rounding, in the geometry file,
  and the colour [255,70,0,200] against [130,255,155,200], whose red channel is larger.
\<close>

theorem two_county_scenario:
  assumes "to_numeric ''10000000'' = Some 10000000" and "to_numeric ''3000000'' = Some 3000000"
  shows "\<exists>la sd x y.
      prepare_data to_numeric (Response 200 (Some scenario_features))
          (Response 200 (Some scenario_rows)) no_files
        = (None, \<lparr>geojson_file = Some [la, sd],
                  csv_file = Some
                    [(''06037'', ''Los Angeles County, California'', 10000000, ''10,000,000'',
                      log 10 10000001, 1),
                     (''06073'', ''San Diego County, California'', 3000000, ''3,000,000'',
                      log 10 3000001, 1 / 2)]\<rparr>)
    \<and> map_of (properties la) ''fips'' = Some (JStr ''06037'')
    \<and> map_of (properties sd) ''fips'' = Some (JStr ''06073'')
    \<and> map_of (properties la) ''population'' = Some (JInt 10000000)
    \<and> map_of (properties sd) ''population'' = Some (JInt 3000000)
    \<and> map_of (properties la) ''quantile'' = Some (JReal 1)
    \<and> map_of (properties sd) ''quantile'' = Some (JReal (1 / 2))
    \<and> map_of (properties la) ''log_pop'' = Some (JReal x)
    \<and> map_of (properties sd) ''log_pop'' = Some (JReal y)
    \<and> y < x \<and> log 10 3000001 < log 10 10000001
    \<and> map_of (properties la) ''fill_color'' = Some (JInts [255, 70, 0, 200])
    \<and> map_of (properties sd) ''fill_color'' = Some (JInts [130, 255, 155, 200])
    \<and> [130, 255, 155, 200] ! 0 < [255, 70, 0, 200 :: int] ! 0"
proof -
  obtain la sd where t:
     "FIPS la = ''06037''" "NAME la = ''Los Angeles County, California''"
     "population la = 10000000" "population_formatted la = ''10,000,000''"
     "log_pop la = log 10 10000001" "quantile la = 1" "fill_color la = [255, 70, 0, 200]"
     "FIPS sd = ''06073''" "NAME sd = ''San Diego County, California''"
     "population sd = 3000000" "population_formatted sd = ''3,000,000''"
     "log_pop sd = log 10 3000001" "quantile sd = 1 / 2" "fill_color sd = [130, 255, 155, 200]"
    and run: "prepare_data to_numeric (Response 200 (Some scenario_features))
          (Response 200 (Some scenario_rows)) no_files
        = (None, no_files\<lparr>geojson_file :=
                   Some [attach (lookup_entry la) ''06037'' (scenario_features ! 0),
                         attach (lookup_entry sd) ''06073'' (scenario_features ! 1)],
                 csv_file := Some (df_out [la, sd])\<rparr>)"
    using scenario_run [OF assms] by blast
  let ?la = "attach (lookup_entry la) ''06037'' (scenario_features ! 0)"
  let ?sd = "attach (lookup_entry sd) ''06073'' (scenario_features ! 1)"
  have files: "no_files\<lparr>geojson_file := Some [?la, ?sd], csv_file := Some (df_out [la, sd])\<rparr>
      = \<lparr>geojson_file = Some [?la, ?sd],
         csv_file = Some
           [(''06037'', ''Los Angeles County, California'', 10000000, ''10,000,000'',
             log 10 10000001, 1),
            (''06073'', ''San Diego County, California'', 3000000, ''3,000,000'',
             log 10 3000001, 1 / 2)]\<rparr>"
    by (simp add: no_files_def df_out_def t)
  have logs: "log 10 3000001 < log 10 (10000001::real)"
    by simp
  have props:
    "map_of (properties ?la) ''fips'' = Some (JStr ''06037'')"
    "map_of (properties ?sd) ''fips'' = Some (JStr ''06073'')"
    "map_of (properties ?la) ''population'' = Some (JInt 10000000)"
    "map_of (properties ?sd) ''population'' = Some (JInt 3000000)"
    "map_of (properties ?la) ''quantile'' = Some (JReal 1)"
    "map_of (properties ?sd) ''quantile'' = Some (JReal (1 / 2))"
    "map_of (properties ?la) ''log_pop'' = Some (JReal (py_round (log 10 10000001) 4))"
    "map_of (properties ?sd) ''log_pop'' = Some (JReal (py_round (log 10 3000001) 4))"
    "map_of (properties ?la) ''fill_color'' = Some (JInts [255, 70, 0, 200])"
    "map_of (properties ?sd) ''fill_color'' = Some (JInts [130, 255, 155, 200])"
    using py_round_exact by (simp_all add: attach_entry t py_int_def)
  show ?thesis
    apply (rule exI [of _ ?la])
    apply (rule exI [of _ ?sd])
    apply (rule exI [of _ "py_round (log 10 10000001) 4"])
    apply (rule exI [of _ "py_round (log 10 3000001) 4"])
    using run files logs props rounded_logs
    apply (simp only:)
    apply simp
    done
qed

text \<open>Claim C7 with the decimal reading of the two population fields.\<close>

theorem two_county_scenario_witness:
  "decimal_literal ''10000000'' = Some 10000000 \<and> decimal_literal ''3000000'' = Some 3000000
   \<and> fst (prepare_data decimal_literal (Response 200 (Some scenario_features))
          (Response 200 (Some scenario_rows)) no_files) = None
   \<and> map_option (map (\<lambda>(f, n, p, pf, l, q). f))
        (csv_file (snd (prepare_data decimal_literal (Response 200 (Some scenario_features))
          (Response 200 (Some scenario_rows)) no_files)))
      = Some [''06037'', ''06073'']
   \<and> map_option length
        (geojson_file (snd (prepare_data decimal_literal (Response 200 (Some scenario_features))
          (Response 200 (Some scenario_rows)) no_files)))
      = Some 2"
proof -
  have h: "decimal_literal ''10000000'' = Some 10000000" "decimal_literal ''3000000'' = Some 3000000"
    by (simp_all add: decimal_literal_def unsigned_decimal_def digit_value_def)
  obtain la sd where "prepare_data decimal_literal (Response 200 (Some scenario_features))
          (Response 200 (Some scenario_rows)) no_files
        = (None, \<lparr>geojson_file = Some [la, sd],
                  csv_file = Some
                    [(''06037'', ''Los Angeles County, California'', 10000000, ''10,000,000'',
                      log 10 10000001, 1),
                     (''06073'', ''San Diego County, California'', 3000000, ''3,000,000'',
                      log 10 3000001, 1 / 2)]\<rparr>)"
    using two_county_scenario [OF h] by blast
  then show ?thesis using h by simp
qed

text \<open>
  Claim C10. After a successful run the tabular file holds, for every surviving row,
  the log-scaled magnitude and the rank as computed, while every feature of the
  geometry file holds the same two values rounded to four decimals (a multiple of
  0.0001 at distance at most 0.00005). The two files can therefore disagree: in the run
  with three surviving rows, county 06073 has rank 0.6667 in the geometry file and
  2/3 in the tabular file.
\<close>

theorem geojson_rounded_csv_unrounded:
  "(prepare_data to_numeric counties_resp census_resp fs = (None, fs')
      \<and> fetch census_resp = Inr rows \<longrightarrow>
      (\<exists>out. geojson_file fs' = Some out
         \<and> csv_file fs'
             = Some (map (\<lambda>row. (FIPS row, NAME row, population row, population_formatted row,
                                   log_pop row, quantile row))
                       (derive (df_population to_numeric rows)))
         \<and> (\<forall>g \<in> set out. \<exists>row \<in> set (derive (df_population to_numeric rows)).
               map_of (properties g) ''fips'' = Some (JStr (FIPS row))
               \<and> map_of (properties g) ''log_pop'' = Some (JReal (py_round (log_pop row) 4))
               \<and> map_of (properties g) ''quantile'' = Some (JReal (py_round (quantile row) 4)))))
   \<and> (\<forall>x. (\<exists>k::int. py_round x 4 = of_int k / 10000) \<and> \<bar>py_round x 4 - x\<bar> \<le> 1 / 20000)
   \<and> map_option (map (\<lambda>g. (map_of (properties g) ''fips'', map_of (properties g) ''quantile'')))
       (geojson_file (snd (prepare_data decimal_literal (Response 200 (Some mixed_features))
            (Response 200 (Some mixed_rows)) no_files)))
     = Some [(Some (JStr ''06037''), Some (JReal 1)),
             (Some (JStr ''06073''), Some (JReal (6667 / 10000))),
             (Some (JStr ''06003''), Some (JReal (3333 / 10000)))]
   \<and> map_option (map (\<lambda>(f, n, p, pf, l, q). (f, q)))
       (csv_file (snd (prepare_data decimal_literal (Response 200 (Some mixed_features))
            (Response 200 (Some mixed_rows)) no_files)))
     = Some [(''06037'', 1), (''06073'', 2 / 3), (''06003'', 1 / 3)]"
proof -
  have general: "\<exists>out. geojson_file fs' = Some out
         \<and> csv_file fs'
             = Some (map (\<lambda>row. (FIPS row, NAME row, population row, population_formatted row,
                                   log_pop row, quantile row))
                       (derive (df_population to_numeric rows)))
         \<and> (\<forall>g \<in> set out. \<exists>row \<in> set (derive (df_population to_numeric rows)).
               map_of (properties g) ''fips'' = Some (JStr (FIPS row))
               \<and> map_of (properties g) ''log_pop'' = Some (JReal (py_round (log_pop row) 4))
               \<and> map_of (properties g) ''quantile'' = Some (JReal (py_round (quantile row) 4)))"
    if a: "prepare_data to_numeric counties_resp census_resp fs = (None, fs')
      \<and> fetch census_resp = Inr rows"
  proof -
    let ?df = "derive (df_population to_numeric rows)"
    obtain features out where out: "matched_features (value_lookup ?df) features = Inr out"
        "fs' = fs\<lparr>geojson_file := Some out, csv_file := Some (df_out ?df)\<rparr>"
      using a prepare_data_None [of to_numeric counties_resp census_resp fs fs'] by auto
    have "\<exists>row \<in> set ?df.
               map_of (properties g) ''fips'' = Some (JStr (FIPS row))
               \<and> map_of (properties g) ''log_pop'' = Some (JReal (py_round (log_pop row) 4))
               \<and> map_of (properties g) ''quantile'' = Some (JReal (py_round (quantile row) 4))"
      if g_in: "g \<in> set out" for g
    proof -
      obtain row f where row: "row \<in> set ?df" "g = attach (lookup_entry row) (FIPS row) f"
        using matched_entry [OF out(1) g_in] by blast
      show ?thesis
        using row attach_entry [of row "FIPS row" f] by blast
    qed
    then show ?thesis using out(2) by (simp add: df_out_def)
  qed
  show ?thesis
    using general py_round_grid py_round_error4 mixed_outputs by blast
qed

text \<open>Claim C10 on the run with three surviving rows.\<close>

theorem geojson_rounded_csv_unrounded_witness:
  "fetch (Response 200 (Some mixed_rows)) = Inr mixed_rows
   \<and> fst (prepare_data decimal_literal (Response 200 (Some mixed_features))
            (Response 200 (Some mixed_rows)) no_files) = None
   \<and> map_option (map (\<lambda>g. map_of (properties g) ''quantile''))
       (geojson_file (snd (prepare_data decimal_literal (Response 200 (Some mixed_features))
            (Response 200 (Some mixed_rows)) no_files)))
     = Some [Some (JReal 1), Some (JReal (6667 / 10000)), Some (JReal (3333 / 10000))]
   \<and> map_option (map (\<lambda>(f, n, p, pf, l, q). q))
       (csv_file (snd (prepare_data decimal_literal (Response 200 (Some mixed_features))
            (Response 200 (Some mixed_rows)) no_files)))
     = Some [1, 2 / 3, 1 / 3]
   \<and> (6667 / 10000 :: real) \<noteq> 2 / 3 \<and> (3333 / 10000 :: real) \<noteq> 1 / 3"
proof -
  obtain la sd al where t:
     "FIPS la = ''06037''" "quantile la = 1"
     "FIPS sd = ''06073''" "quantile sd = 2 / 3"
     "FIPS al = ''06003''" "quantile al = 1 / 3"
     and run: "prepare_data decimal_literal (Response 200 (Some mixed_features))
          (Response 200 (Some mixed_rows)) no_files
        = (None, no_files\<lparr>geojson_file :=
                   Some [attach (lookup_entry la) ''06037'' (mixed_features ! 0),
                         attach (lookup_entry sd) ''06073'' (mixed_features ! 1),
                         attach (lookup_entry al) ''06003'' (mixed_features ! 2)],
                 csv_file := Some (df_out [la, sd, al])\<rparr>)"
    using mixed_run by blast
  have "\<exists>out. geojson_file (no_files\<lparr>geojson_file :=
                   Some [attach (lookup_entry la) ''06037'' (mixed_features ! 0),
                         attach (lookup_entry sd) ''06073'' (mixed_features ! 1),
                         attach (lookup_entry al) ''06003'' (mixed_features ! 2)],
                 csv_file := Some (df_out [la, sd, al])\<rparr>) = Some out"
    using geojson_rounded_csv_unrounded [of decimal_literal "Response 200 (Some mixed_features)"
        "Response 200 (Some mixed_rows)" no_files _ mixed_rows] run fetch_ok [of mixed_rows]
    by blast
  then show ?thesis
    unfolding run fetch_ok
    using py_round_exact by (simp add: attach_entry t df_out_def)
qed

end
